theory Spec2Isabelle
  imports Complex_Main
begin

section \<open>GasKinetics: homogeneous kinetics in ideal gases\<close>

text \<open>
  A shallow embedding of \<^verbatim>\<open>src/kinetics/GasKinetics.cpp\<close>. The member functions of
  \<^verbatim>\<open>GasKinetics\<close> become functions on a record of its data members; a function that can
  throw returns a sum whose left summand is the exception.

  The C++ type \<^verbatim>\<open>double\<close> is the type variable \<open>'d\<close>. Its arithmetic is written with
  the operator symbols of the syntactic type classes \<open>plus\<close>, \<open>minus\<close>, \<open>times\<close>,
  \<open>inverse\<close>, \<open>uminus\<close>, \<open>ord\<close>, \<open>zero\<close> and \<open>one\<close>, which carry no algebraic law:
  nothing below relies on associativity, on exactness or on any other property that
  floating-point arithmetic does not have. Equality of \<open>'d\<close> is identity of
  representation; the comparison \<^verbatim>\<open>!=\<close> of the language is a parameter of its own.
\<close>

subsection \<open>Exceptions\<close>

datatype fmt_arg = ArgNat nat | ArgStr string

text \<open>
  \<^verbatim>\<open>CanteraError(procedure, msg, args...)\<close>: the procedure name, the message template
  and the arguments substituted for the placeholders \<^verbatim>\<open>{}\<close> of the template.
\<close>

datatype error =
    CanteraError string string "fmt_arg list"
  | NotImplementedError string string

subsection \<open>Vectors\<close>

text \<open>\<^verbatim>\<open>std::min(a, b)\<close> is \<^verbatim>\<open>(b < a) ? b : a\<close>.\<close>

definition std_min :: "'d::ord \<Rightarrow> 'd \<Rightarrow> 'd" where
  "std_min a b = (if b < a then b else a)"

text \<open>\<^verbatim>\<open>std::fill(v.begin(), v.end(), x)\<close>.\<close>

definition std_fill :: "'a list \<Rightarrow> 'a \<Rightarrow> 'a list" where
  "std_fill v x = replicate (length v) x"

text \<open>
  \<^verbatim>\<open>std::copy(src.begin(), src.end(), dst)\<close> overwrites the first \<open>length src\<close> entries
  of the destination, which the caller must have made at least that long.
\<close>

definition std_copy :: "'a list \<Rightarrow> 'a list \<Rightarrow> 'a list" where
  "std_copy src dst = src @ drop (length src) dst"

text \<open>The loop \<^verbatim>\<open>for (size_t i = 0; i < n; i++) v[i] = f(i, v)\<close>.\<close>

definition for_upto :: "nat \<Rightarrow> (nat \<Rightarrow> 'a list \<Rightarrow> 'a) \<Rightarrow> 'a list \<Rightarrow> 'a list" where
  "for_upto n f v = fold (\<lambda>i w. w[i := f i w]) [0..<n] v"

subsection \<open>The thermodynamic state and the reactions\<close>

text \<open>What the \<^verbatim>\<open>ThermoPhase\<close> object behind \<^verbatim>\<open>thermo()\<close> answers to its getters.\<close>

record 'd ThermoPhase =
  phase_type :: string
  temperature :: 'd
  pressure :: 'd
  RT :: 'd
  molarDensity :: 'd
  standardConcentration :: 'd
  standardChemPotentials :: "'d list"
  activityConcentrations :: "'d list"
  concentrations :: "'d list"

text \<open>
  A reaction object as \<^verbatim>\<open>addReaction\<close> and \<^verbatim>\<open>modifyReaction\<close> read it. \<open>'k\<close> is the type of
  the rate parameterisations and falloff functions it carries.
\<close>

record ('d, 'k) Reaction =
  rtype :: string
  usesLegacy :: bool
  reversible :: bool
  delta_n :: 'd
  rate :: 'k
  high_rate :: 'k
  low_rate :: 'k
  falloff :: 'k
  efficiencies :: "(string \<times> 'd) list"
  default_efficiency :: 'd

subsection \<open>The data members\<close>

text \<open>
  The members of \<^verbatim>\<open>GasKinetics\<close> and of its bases that the file reads or writes. The
  evaluator objects are kept abstract: \<open>'r\<close> for \<^verbatim>\<open>Rate1\<close>, \<open>'f\<close> for \<^verbatim>\<open>FalloffMgr\<close>, \<open>'t\<close>
  for the third-body calculators, \<open>'b\<close> for \<^verbatim>\<open>MultiRateBase\<close>, \<open>'s\<close> for the
  stoichiometry managers.
\<close>

record ('d, 'k, 'r, 'f, 't, 'b, 's) GasKinetics =
  thermo :: "'d ThermoPhase"
  m_reactions :: "('d, 'k) Reaction list"
  m_temp :: 'd
  m_pres :: 'd
  m_logStandConc :: 'd
  m_ROP_ok :: bool
  m_rfn :: "'d list"
  m_rkcn :: "'d list"
  m_ropf :: "'d list"
  m_ropr :: "'d list"
  m_ropnet :: "'d list"
  m_perturb :: "'d list"
  m_dn :: "'d list"
  m_grt :: "'d list"
  m_act_conc :: "'d list"
  m_phys_conc :: "'d list"
  m_concm :: "'d list"
  m_rbuf0 :: "'d list"
  m_rbuf1 :: "'d list"
  m_rbuf2 :: "'d list"
  m_revindex :: "nat list"
  m_irrev :: "nat list"
  m_legacy :: "nat list"
  m_fallindx :: "nat list"
  m_rfallindx :: "nat \<rightharpoonup> nat"
  m_rfn_low :: "'d list"
  m_rfn_high :: "'d list"
  falloff_work :: "'d list"
  concm_3b_values :: "'d list"
  concm_falloff_values :: "'d list"
  m_rates :: 'r
  m_falloff_low_rates :: 'r
  m_falloff_high_rates :: 'r
  m_plog_rates :: 'r
  m_cheb_rates :: 'r
  m_falloffn :: 'f
  m_3b_concm :: 't
  m_falloff_concm :: 't
  m_multi_concm :: 't
  m_bulk_rates :: "'b list"
  m_reactantStoich :: 's
  m_revProductStoich :: 's
  m_jac_const_pressure :: bool
  m_jac_mole_fractions :: bool
  m_jac_skip_third_bodies :: bool
  m_jac_skip_falloff :: bool
  m_jac_rtol_deltaT :: 'd
  m_jac_atol_deltaT :: 'd

text \<open>\<^verbatim>\<open>Kinetics::nReactions()\<close> and \<^verbatim>\<open>Kinetics::reactionTypeStr(i)\<close>.\<close>

definition nReactions :: "('d, 'k, 'r, 'f, 't, 'b, 's) GasKinetics \<Rightarrow> nat" where
  "nReactions s = length (m_reactions s)"

definition reactionTypeStr :: "('d, 'k, 'r, 'f, 't, 'b, 's) GasKinetics \<Rightarrow> nat \<Rightarrow> string" where
  "reactionTypeStr s i = rtype (m_reactions s ! i)"

subsection \<open>The collaborators\<close>

text \<open>
  Everything the file calls and does not define: the mathematical library, the constants
  of \<^verbatim>\<open>ct_defs.h\<close>, the two literals that have no counterpart in the syntactic classes,
  and the member functions of the evaluator objects, of the stoichiometry managers and of
  the base class \<^verbatim>\<open>Kinetics\<close>. A function that updates a vector in place takes the
  vector and returns it. \<open>'m\<close> is \<^verbatim>\<open>Eigen::SparseMatrix<double>\<close>.
\<close>

record ('d, 'k, 'r, 'f, 't, 'b, 's, 'm) Env =
  c_log :: "'d \<Rightarrow> 'd"
  c_log10 :: "'d \<Rightarrow> 'd"
  c_exp :: "'d \<Rightarrow> 'd"
  c_isfinite :: "'d \<Rightarrow> bool"
  c_ne :: "'d \<Rightarrow> 'd \<Rightarrow> bool"
  BigNumber :: 'd
  SmallNumber :: 'd
  lit_0_13579 :: 'd
  lit_1e_6 :: 'd
  BulkKinetics_offset :: 'd
  Rate1_nReactions :: "'r \<Rightarrow> nat"
  Rate1_update :: "'r \<Rightarrow> 'd \<Rightarrow> 'd \<Rightarrow> 'd list \<Rightarrow> 'd list"
  Rate1_update_C :: "'r \<Rightarrow> 'd \<Rightarrow> 'r"
  Rate1_install :: "'r \<Rightarrow> nat \<Rightarrow> 'k \<Rightarrow> 'r"
  Rate1_replace :: "'r \<Rightarrow> nat \<Rightarrow> 'k \<Rightarrow> 'r"
  FalloffMgr_updateTemp :: "'f \<Rightarrow> 'd \<Rightarrow> 'd list \<Rightarrow> 'd list"
  FalloffMgr_pr_to_falloff :: "'f \<Rightarrow> 'd list \<Rightarrow> 'd list \<Rightarrow> 'd list"
  FalloffMgr_install :: "'f \<Rightarrow> nat \<Rightarrow> string \<Rightarrow> 'k \<Rightarrow> 'f"
  FalloffMgr_replace :: "'f \<Rightarrow> nat \<Rightarrow> 'k \<Rightarrow> 'f"
  FalloffMgr_workSize :: "'f \<Rightarrow> nat"
  ThirdBodyCalc_update :: "'t \<Rightarrow> 'd list \<Rightarrow> 'd \<Rightarrow> 'd list \<Rightarrow> 'd list"
  ThirdBodyCalc_copy :: "'t \<Rightarrow> 'd list \<Rightarrow> 'd list \<Rightarrow> 'd list"
  ThirdBodyCalc_multiply :: "'t \<Rightarrow> 'd list \<Rightarrow> 'd list \<Rightarrow> 'd list"
  ThirdBodyCalc_install :: "'t \<Rightarrow> nat \<Rightarrow> (nat \<rightharpoonup> 'd) \<Rightarrow> 'd \<Rightarrow> nat option \<Rightarrow> 't"
  ThirdBodyCalc_workSize :: "'t \<Rightarrow> nat"
  ThirdBodyCalc_scaleOrder :: "'t \<Rightarrow> 'd list \<Rightarrow> 'd list \<Rightarrow> 'd list"
  ThirdBodyCalc_jacobian :: "'t \<Rightarrow> 'd list \<Rightarrow> 'm"
  MultiRate_update ::
    "'b \<Rightarrow> ('d, 'k, 'r, 'f, 't, 'b, 's) GasKinetics \<Rightarrow> bool \<times> 'b"
  MultiRate_getRateConstants :: "'b \<Rightarrow> 'd list \<Rightarrow> 'd list"
  MultiRate_add :: "'b list \<Rightarrow> nat \<Rightarrow> ('d, 'k) Reaction \<Rightarrow> 'b list"
  MultiRate_replace :: "'b list \<Rightarrow> nat \<Rightarrow> ('d, 'k) Reaction \<Rightarrow> 'b list"
  MultiRate_processRateConstants_ddT :: "'b \<Rightarrow> 'd list \<Rightarrow> 'd list \<Rightarrow> 'd \<Rightarrow> 'd list"
  MultiRate_processRateConstants_ddM :: "'b \<Rightarrow> 'd list \<Rightarrow> 'd list \<Rightarrow> 'd \<Rightarrow> 'd list"
  Stoich_multiply :: "'s \<Rightarrow> 'd list \<Rightarrow> 'd list \<Rightarrow> 'd list"
  Stoich_scale :: "'s \<Rightarrow> 'd list \<Rightarrow> 'd list \<Rightarrow> 'd list"
  Stoich_jacobian :: "'s \<Rightarrow> 'd list \<Rightarrow> 'd list \<Rightarrow> 'm"
  mat_add :: "'m \<Rightarrow> 'm \<Rightarrow> 'm"
  mat_sub :: "'m \<Rightarrow> 'm \<Rightarrow> 'm"
  getRevReactionDelta ::
    "('d, 'k, 'r, 'f, 't, 'b, 's) GasKinetics \<Rightarrow> 'd list \<Rightarrow> 'd list \<Rightarrow> 'd list"
  getReactionDelta ::
    "('d, 'k, 'r, 'f, 't, 'b, 's) GasKinetics \<Rightarrow> 'd list \<Rightarrow> 'd list \<Rightarrow> 'd list"
  kineticsSpeciesIndex :: "('d, 'k, 'r, 'f, 't, 'b, 's) GasKinetics \<Rightarrow> string \<Rightarrow> nat option"
  setState_TP :: "'d ThermoPhase \<Rightarrow> 'd \<Rightarrow> 'd \<Rightarrow> 'd ThermoPhase"
  Kinetics_accepts :: "('d, 'k, 'r, 'f, 't, 'b, 's) GasKinetics \<Rightarrow> ('d, 'k) Reaction \<Rightarrow> bool"

subsection \<open>Equilibrium constants\<close>

text \<open>
  \<^verbatim>\<open>GasKinetics::updateKc\<close>. The first loop runs over the reversible reactions, the second
  over the irreversible ones, as \<^verbatim>\<open>m_revindex\<close> and \<^verbatim>\<open>m_irrev\<close> list them.
\<close>

definition updateKc ::
  "('d::{zero,one,plus,minus,times,inverse,ord}, 'k, 'r, 'f, 't, 'b, 's, 'm) Env \<Rightarrow>
   ('d, 'k, 'r, 'f, 't, 'b, 's) GasKinetics \<Rightarrow> ('d, 'k, 'r, 'f, 't, 'b, 's) GasKinetics" where
  "updateKc E s =
    (let s1 = s\<lparr>m_grt := standardChemPotentials (thermo s)\<rparr>;
         s2 = s1\<lparr>m_rkcn := std_fill (m_rkcn s1) 0\<rparr>;
         s3 = s2\<lparr>m_rkcn := getRevReactionDelta E s2 (m_grt s2) (m_rkcn s2)\<rparr>;
         rrt = 1 / RT (thermo s3);
         s4 = s3\<lparr>m_rkcn :=
                fold (\<lambda>irxn rk. rk[irxn :=
                        std_min (c_exp E (rk ! irxn * rrt - m_dn s3 ! irxn * m_logStandConc s3))
                                (BigNumber E)])
                     (m_revindex s3) (m_rkcn s3)\<rparr>
     in s4\<lparr>m_rkcn := fold (\<lambda>irxn rk. rk[irxn := 0]) (m_irrev s4) (m_rkcn s4)\<rparr>)"

text \<open>
  The standard Gibbs energy changes of the reversible reactions, as \<^verbatim>\<open>updateKc\<close> obtains
  them from \<^verbatim>\<open>getRevReactionDelta\<close>.
\<close>

definition deltaG0_rev ::
  "('d::zero, 'k, 'r, 'f, 't, 'b, 's, 'm) Env \<Rightarrow>
   ('d, 'k, 'r, 'f, 't, 'b, 's) GasKinetics \<Rightarrow> 'd list" where
  "deltaG0_rev E s =
    (let s1 = s\<lparr>m_grt := standardChemPotentials (thermo s)\<rparr>;
         s2 = s1\<lparr>m_rkcn := std_fill (m_rkcn s1) 0\<rparr>
     in getRevReactionDelta E s2 (m_grt s2) (m_rkcn s2))"

subsection \<open>Temperature- and concentration-dependent updates\<close>

text \<open>The body of \<^verbatim>\<open>if (T != m_temp)\<close> in \<^verbatim>\<open>update_rates_T\<close>.\<close>

definition update_T_block ::
  "('d::{zero,one,plus,minus,times,inverse,ord}, 'k, 'r, 'f, 't, 'b, 's, 'm) Env \<Rightarrow> 'd \<Rightarrow> 'd \<Rightarrow>
   ('d, 'k, 'r, 'f, 't, 'b, 's) GasKinetics \<Rightarrow> ('d, 'k, 'r, 'f, 't, 'b, 's) GasKinetics" where
  "update_T_block E T logT s =
    (let s1 = (if m_rfn s \<noteq> []
               then s\<lparr>m_rfn := Rate1_update E (m_rates s) T logT (m_rfn s)\<rparr> else s);
         s2 = (if m_rfn_low s1 \<noteq> []
               then (let s1a = s1\<lparr>m_rfn_low :=
                                 Rate1_update E (m_falloff_low_rates s1) T logT (m_rfn_low s1)\<rparr>
                     in s1a\<lparr>m_rfn_high :=
                               Rate1_update E (m_falloff_high_rates s1a) T logT (m_rfn_high s1a)\<rparr>)
               else s1);
         s3 = (if falloff_work s2 \<noteq> []
               then s2\<lparr>falloff_work := FalloffMgr_updateTemp E (m_falloffn s2) T (falloff_work s2)\<rparr>
               else s2);
         s4 = updateKc E s3
     in s4\<lparr>m_ROP_ok := False\<rparr>)"

text \<open>
  One round of the loop over the \<^verbatim>\<open>MultiBulkRate\<close> evaluators: evaluator \<open>i\<close> is updated
  in place and, when it reports a change, writes its rate constants into \<^verbatim>\<open>m_rfn\<close>.
\<close>

definition update_bulk_rate ::
  "('d, 'k, 'r, 'f, 't, 'b, 's, 'm) Env \<Rightarrow> nat \<Rightarrow>
   ('d, 'k, 'r, 'f, 't, 'b, 's) GasKinetics \<Rightarrow> ('d, 'k, 'r, 'f, 't, 'b, 's) GasKinetics" where
  "update_bulk_rate E i s =
    (let (changed, b) = MultiRate_update E (m_bulk_rates s ! i) s;
         s1 = s\<lparr>m_bulk_rates := (m_bulk_rates s)[i := b]\<rparr>
     in if changed
        then s1\<lparr>m_rfn := MultiRate_getRateConstants E b (m_rfn s1), m_ROP_ok := False\<rparr>
        else s1)"

definition update_bulk_rates ::
  "('d, 'k, 'r, 'f, 't, 'b, 's, 'm) Env \<Rightarrow>
   ('d, 'k, 'r, 'f, 't, 'b, 's) GasKinetics \<Rightarrow> ('d, 'k, 'r, 'f, 't, 'b, 's) GasKinetics" where
  "update_bulk_rates E s = fold (update_bulk_rate E) [0..<length (m_bulk_rates s)] s"

text \<open>The body of \<^verbatim>\<open>if (T != m_temp || P != m_pres)\<close>.\<close>

definition update_P_block ::
  "('d, 'k, 'r, 'f, 't, 'b, 's, 'm) Env \<Rightarrow> 'd \<Rightarrow> 'd \<Rightarrow>
   ('d, 'k, 'r, 'f, 't, 'b, 's) GasKinetics \<Rightarrow> ('d, 'k, 'r, 'f, 't, 'b, 's) GasKinetics" where
  "update_P_block E T logT s =
    (let s1 = (if Rate1_nReactions E (m_plog_rates s) \<noteq> 0
               then s\<lparr>m_rfn := Rate1_update E (m_plog_rates s) T logT (m_rfn s),
                      m_ROP_ok := False\<rparr>
               else s)
     in if Rate1_nReactions E (m_cheb_rates s1) \<noteq> 0
        then s1\<lparr>m_rfn := Rate1_update E (m_cheb_rates s1) T logT (m_rfn s1),
                m_ROP_ok := False\<rparr>
        else s1)"

text \<open>\<^verbatim>\<open>GasKinetics::update_rates_T\<close>.\<close>

definition update_rates_T ::
  "('d::{zero,one,plus,minus,times,inverse,ord}, 'k, 'r, 'f, 't, 'b, 's, 'm) Env \<Rightarrow>
   ('d, 'k, 'r, 'f, 't, 'b, 's) GasKinetics \<Rightarrow> ('d, 'k, 'r, 'f, 't, 'b, 's) GasKinetics" where
  "update_rates_T E s =
    (let T = temperature (thermo s);
         P = pressure (thermo s);
         s1 = s\<lparr>m_logStandConc := c_log E (standardConcentration (thermo s))\<rparr>;
         logT = c_log E T;
         s2 = (if c_ne E T (m_temp s1) then update_T_block E T logT s1 else s1);
         s3 = update_bulk_rates E s2;
         s4 = (if c_ne E T (m_temp s3) \<or> c_ne E P (m_pres s3)
               then update_P_block E T logT s3 else s3)
     in s4\<lparr>m_pres := P, m_temp := T\<rparr>)"

text \<open>\<^verbatim>\<open>GasKinetics::update_rates_C\<close>.\<close>

definition update_rates_C ::
  "('d, 'k, 'r, 'f, 't, 'b, 's, 'm) Env \<Rightarrow>
   ('d, 'k, 'r, 'f, 't, 'b, 's) GasKinetics \<Rightarrow> ('d, 'k, 'r, 'f, 't, 'b, 's) GasKinetics" where
  "update_rates_C E s =
    (let s1 = s\<lparr>m_act_conc := activityConcentrations (thermo s)\<rparr>;
         s2 = s1\<lparr>m_phys_conc := concentrations (thermo s1)\<rparr>;
         ctot = molarDensity (thermo s2);
         s3 = s2\<lparr>m_concm :=
                ThirdBodyCalc_update E (m_multi_concm s2) (m_phys_conc s2) ctot (m_concm s2)\<rparr>;
         s4 = (if concm_3b_values s3 \<noteq> []
               then (let s3a = s3\<lparr>concm_3b_values :=
                                 ThirdBodyCalc_update E (m_3b_concm s3) (m_phys_conc s3) ctot
                                   (concm_3b_values s3)\<rparr>
                     in s3a\<lparr>m_concm :=
                               ThirdBodyCalc_copy E (m_3b_concm s3a) (concm_3b_values s3a)
                                 (m_concm s3a)\<rparr>)
               else s3);
         s5 = (if concm_falloff_values s4 \<noteq> []
               then (let s4a = s4\<lparr>concm_falloff_values :=
                                 ThirdBodyCalc_update E (m_falloff_concm s4) (m_phys_conc s4) ctot
                                   (concm_falloff_values s4)\<rparr>
                     in s4a\<lparr>m_concm :=
                               ThirdBodyCalc_copy E (m_falloff_concm s4a) (concm_falloff_values s4a)
                                 (m_concm s4a)\<rparr>)
               else s4);
         s6 = (if Rate1_nReactions E (m_plog_rates s5) \<noteq> 0
               then s5\<lparr>m_plog_rates :=
                        Rate1_update_C E (m_plog_rates s5) (c_log E (pressure (thermo s5)))\<rparr>
               else s5);
         s7 = (if Rate1_nReactions E (m_cheb_rates s6) \<noteq> 0
               then s6\<lparr>m_cheb_rates :=
                        Rate1_update_C E (m_cheb_rates s6) (c_log10 E (pressure (thermo s6)))\<rparr>
               else s6)
     in s7\<lparr>m_ROP_ok := False\<rparr>)"

subsection \<open>Falloff reactions\<close>

text \<open>
  Modelled from the spec: the macro \<^verbatim>\<open>AssertFinite(expr, procedure, fmt, args...)\<close>, whose
  definition is not in the file. A value that is not finite is a fatal error that carries
  the procedure, the message template and its arguments.
\<close>

definition AssertFinite ::
  "('d, 'k, 'r, 'f, 't, 'b, 's, 'm) Env \<Rightarrow> 'd \<Rightarrow> string \<Rightarrow> string \<Rightarrow> fmt_arg list \<Rightarrow> error option" where
  "AssertFinite E v procedure fmt args =
    (if c_isfinite E v then None else Some (CanteraError procedure fmt args))"

text \<open>The reduced pressure that \<^verbatim>\<open>processFalloffReactions\<close> computes for \<open>pr[i]\<close>.\<close>

definition reduced_pressure ::
  "('d::{plus,times,inverse}, 'k, 'r, 'f, 't, 'b, 's, 'm) Env \<Rightarrow>
   ('d, 'k, 'r, 'f, 't, 'b, 's) GasKinetics \<Rightarrow> nat \<Rightarrow> 'd" where
  "reduced_pressure E s i =
    concm_falloff_values s ! i * m_rfn_low s ! i / (m_rfn_high s ! i + SmallNumber E)"

text \<open>
  The first loop of \<^verbatim>\<open>processFalloffReactions\<close>, over the positions \<open>i\<close> of the falloff
  reactions: the reduced pressure is stored in \<open>pr\<close> and checked.
\<close>

fun reduced_pressures ::
  "('d::{plus,times,inverse}, 'k, 'r, 'f, 't, 'b, 's, 'm) Env \<Rightarrow>
   ('d, 'k, 'r, 'f, 't, 'b, 's) GasKinetics \<Rightarrow> nat list \<Rightarrow> 'd list \<Rightarrow> error + 'd list" where
  "reduced_pressures E s [] pr = Inr pr"
| "reduced_pressures E s (i # is) pr =
    (let pr1 = pr[i := reduced_pressure E s i]
     in case AssertFinite E (pr1 ! i) ''GasKinetics::processFalloffReactions''
               ''pr[{}] is not finite.'' [ArgNat i] of
          Some e \<Rightarrow> Inl e
        | None \<Rightarrow> reduced_pressures E s is pr1)"

text \<open>One round of the second loop: \<open>pr[i]\<close> is scaled and stored in \<open>ropf\<close>.\<close>

definition falloff_scale ::
  "('d::times, 'k, 'r, 'f, 't, 'b, 's) GasKinetics \<Rightarrow> nat \<Rightarrow> 'd list \<times> 'd list \<Rightarrow> 'd list \<times> 'd list" where
  "falloff_scale s i = (\<lambda>(pr, ropf).
    (let pr1 = (if reactionTypeStr s (m_fallindx s ! i) = ''falloff-legacy''
                then pr[i := pr ! i * m_rfn_high s ! i]
                else pr[i := pr ! i * m_rfn_low s ! i])
     in (pr1, ropf[m_fallindx s ! i := pr1 ! i])))"

text \<open>
  \<^verbatim>\<open>GasKinetics::processFalloffReactions\<close>. \<open>ropf\<close> is the buffer the argument points to;
  \<open>pr\<close> is \<^verbatim>\<open>m_ropr\<close>.
\<close>

definition processFalloffReactions ::
  "('d::{plus,times,inverse}, 'k, 'r, 'f, 't, 'b, 's, 'm) Env \<Rightarrow> 'd list \<Rightarrow>
   ('d, 'k, 'r, 'f, 't, 'b, 's) GasKinetics \<Rightarrow>
   error + 'd list \<times> ('d, 'k, 'r, 'f, 't, 'b, 's) GasKinetics" where
  "processFalloffReactions E ropf s =
    (let n = Rate1_nReactions E (m_falloff_low_rates s)
     in case reduced_pressures E s [0..<n] (m_ropr s) of
          Inl e \<Rightarrow> Inl e
        | Inr pr \<Rightarrow>
            (let pr1 = FalloffMgr_pr_to_falloff E (m_falloffn s) pr (falloff_work s);
                 (pr2, ropf1) = fold (falloff_scale s) [0..<n] (pr1, ropf)
             in Inr (ropf1, s\<lparr>m_ropr := pr2\<rparr>)))"

subsection \<open>Rates of progress\<close>

text \<open>\<^verbatim>\<open>GasKinetics::processFwdRateCoefficients\<close>.\<close>

definition processFwdRateCoefficients ::
  "('d::{zero,one,plus,minus,times,inverse,ord}, 'k, 'r, 'f, 't, 'b, 's, 'm) Env \<Rightarrow> 'd list \<Rightarrow>
   ('d, 'k, 'r, 'f, 't, 'b, 's) GasKinetics \<Rightarrow>
   error + 'd list \<times> ('d, 'k, 'r, 'f, 't, 'b, 's) GasKinetics" where
  "processFwdRateCoefficients E ropf s =
    (let s1 = update_rates_C E s;
         s2 = update_rates_T E s1;
         ropf1 = std_copy (m_rfn s2) ropf
     in case (if Rate1_nReactions E (m_falloff_high_rates s2) \<noteq> 0
              then processFalloffReactions E ropf1 s2 else Inr (ropf1, s2)) of
          Inl e \<Rightarrow> Inl e
        | Inr (ropf2, s3) \<Rightarrow>
            Inr (for_upto (nReactions s3) (\<lambda>i w. w ! i * m_perturb s3 ! i) ropf2, s3))"

text \<open>\<^verbatim>\<open>GasKinetics::processThirdBodies\<close>.\<close>

definition processThirdBodies ::
  "('d, 'k, 'r, 'f, 't, 'b, 's, 'm) Env \<Rightarrow> 'd list \<Rightarrow>
   ('d, 'k, 'r, 'f, 't, 'b, 's) GasKinetics \<Rightarrow> 'd list" where
  "processThirdBodies E rop s =
    (let rop1 = (if concm_3b_values s \<noteq> []
                 then ThirdBodyCalc_multiply E (m_3b_concm s) rop (concm_3b_values s) else rop)
     in if m_concm s \<noteq> []
        then ThirdBodyCalc_multiply E (m_multi_concm s) rop1 (m_concm s) else rop1)"

text \<open>\<^verbatim>\<open>GasKinetics::processEquilibriumConstants\<close>.\<close>

definition processEquilibriumConstants ::
  "'d::times list \<Rightarrow> ('d, 'k, 'r, 'f, 't, 'b, 's) GasKinetics \<Rightarrow> 'd list" where
  "processEquilibriumConstants rop s =
    for_upto (nReactions s) (\<lambda>i w. w ! i * m_rkcn s ! i) rop"

text \<open>
  \<^verbatim>\<open>GasKinetics::getEquilibriumConstants\<close>: the buffer \<open>kc\<close> of the caller is returned
  filled.
\<close>

definition getEquilibriumConstants ::
  "('d::{zero,one,plus,minus,uminus,times,inverse,ord}, 'k, 'r, 'f, 't, 'b, 's, 'm) Env \<Rightarrow> 'd list \<Rightarrow>
   ('d, 'k, 'r, 'f, 't, 'b, 's) GasKinetics \<Rightarrow> 'd list \<times> ('d, 'k, 'r, 'f, 't, 'b, 's) GasKinetics" where
  "getEquilibriumConstants E kc s =
    (let s1 = update_rates_T E s;
         s2 = s1\<lparr>m_grt := standardChemPotentials (thermo s1)\<rparr>;
         s3 = s2\<lparr>m_rkcn := std_fill (m_rkcn s2) 0\<rparr>;
         s4 = s3\<lparr>m_rkcn := getReactionDelta E s3 (m_grt s3) (m_rkcn s3)\<rparr>;
         rrt = 1 / RT (thermo s4);
         kc1 = for_upto (nReactions s4)
                 (\<lambda>i w. c_exp E (- (m_rkcn s4 ! i) * rrt + m_dn s4 ! i * m_logStandConc s4)) kc
     in (kc1, s4\<lparr>m_temp := 0\<rparr>))"

text \<open>
  The standard Gibbs energy changes of all reactions, as \<^verbatim>\<open>getEquilibriumConstants\<close>
  obtains them from \<^verbatim>\<open>getReactionDelta\<close>.
\<close>

definition deltaG0 ::
  "('d::{zero,one,plus,minus,times,inverse,ord}, 'k, 'r, 'f, 't, 'b, 's, 'm) Env \<Rightarrow>
   ('d, 'k, 'r, 'f, 't, 'b, 's) GasKinetics \<Rightarrow> 'd list" where
  "deltaG0 E s =
    (let s1 = update_rates_T E s;
         s2 = s1\<lparr>m_grt := standardChemPotentials (thermo s1)\<rparr>;
         s3 = s2\<lparr>m_rkcn := std_fill (m_rkcn s2) 0\<rparr>
     in getReactionDelta E s3 (m_grt s3) (m_rkcn s3))"

text \<open>The finiteness checks at the end of \<^verbatim>\<open>updateROP\<close>, for the indices given.\<close>

fun updateROP_checks ::
  "('d, 'k, 'r, 'f, 't, 'b, 's, 'm) Env \<Rightarrow> ('d, 'k, 'r, 'f, 't, 'b, 's) GasKinetics \<Rightarrow>
   nat list \<Rightarrow> error option" where
  "updateROP_checks E s [] = None"
| "updateROP_checks E s (i # is) =
    (case AssertFinite E (m_rfn s ! i) ''GasKinetics::updateROP''
            ''m_rfn[{}] is not finite.'' [ArgNat i] of
       Some e \<Rightarrow> Some e
     | None \<Rightarrow>
    (case AssertFinite E (m_ropf s ! i) ''GasKinetics::updateROP''
            ''m_ropf[{}] is not finite.'' [ArgNat i] of
       Some e \<Rightarrow> Some e
     | None \<Rightarrow>
    (case AssertFinite E (m_ropr s ! i) ''GasKinetics::updateROP''
            ''m_ropr[{}] is not finite.'' [ArgNat i] of
       Some e \<Rightarrow> Some e
     | None \<Rightarrow> updateROP_checks E s is)))"

text \<open>
  The part of \<^verbatim>\<open>updateROP\<close> between the call of \<^verbatim>\<open>processFwdRateCoefficients\<close>, whose
  result is already in \<^verbatim>\<open>m_ropf\<close>, and the finiteness checks.
\<close>

definition assemble_ROP ::
  "('d::{minus,times}, 'k, 'r, 'f, 't, 'b, 's, 'm) Env \<Rightarrow>
   ('d, 'k, 'r, 'f, 't, 'b, 's) GasKinetics \<Rightarrow> ('d, 'k, 'r, 'f, 't, 'b, 's) GasKinetics" where
  "assemble_ROP E s =
    (let s1 = s\<lparr>m_ropf := processThirdBodies E (m_ropf s) s\<rparr>;
         s2 = s1\<lparr>m_ropr := std_copy (m_ropf s1) (m_ropr s1)\<rparr>;
         s3 = s2\<lparr>m_ropf := Stoich_multiply E (m_reactantStoich s2) (m_act_conc s2) (m_ropf s2)\<rparr>;
         s4 = s3\<lparr>m_ropr := processEquilibriumConstants (m_ropr s3) s3\<rparr>;
         s5 = s4\<lparr>m_ropr := Stoich_multiply E (m_revProductStoich s4) (m_act_conc s4) (m_ropr s4)\<rparr>
     in s5\<lparr>m_ropnet := for_upto (nReactions s5) (\<lambda>j w. m_ropf s5 ! j - m_ropr s5 ! j)
                           (m_ropnet s5)\<rparr>)"

text \<open>\<^verbatim>\<open>GasKinetics::updateROP\<close>.\<close>

definition updateROP ::
  "('d::{zero,one,plus,minus,times,inverse,ord}, 'k, 'r, 'f, 't, 'b, 's, 'm) Env \<Rightarrow>
   ('d, 'k, 'r, 'f, 't, 'b, 's) GasKinetics \<Rightarrow> error + ('d, 'k, 'r, 'f, 't, 'b, 's) GasKinetics" where
  "updateROP E s =
    (case processFwdRateCoefficients E (m_ropf s) s of
       Inl e \<Rightarrow> Inl e
     | Inr (ropf, s1) \<Rightarrow>
         (let s2 = assemble_ROP E (s1\<lparr>m_ropf := ropf\<rparr>)
          in case updateROP_checks E s2 [0..<length (m_rfn s2)] of
               Some e \<Rightarrow> Inl e
             | None \<Rightarrow> Inr (s2\<lparr>m_ROP_ok := True\<rparr>)))"

subsection \<open>Jacobian settings\<close>

text \<open>
  An \<^verbatim>\<open>AnyMap\<close> as \<^verbatim>\<open>setJacobianSettings\<close> reads it: the keys it holds, and the value
  stored under a key read as a \<^verbatim>\<open>bool\<close> or as a \<^verbatim>\<open>double\<close>.
\<close>

record 'd AnyMap =
  keys :: "string list"
  asBool :: "string \<Rightarrow> bool"
  asDouble :: "string \<Rightarrow> 'd"

definition AnyMap_empty :: "'d AnyMap \<Rightarrow> bool" where
  "AnyMap_empty m = (keys m = [])"

definition hasKey :: "'d AnyMap \<Rightarrow> string \<Rightarrow> bool" where
  "hasKey m k = (k \<in> set (keys m))"

definition getBool :: "'d AnyMap \<Rightarrow> string \<Rightarrow> bool \<Rightarrow> bool" where
  "getBool m k dflt = (if hasKey m k then asBool m k else dflt)"

definition getDouble :: "'d AnyMap \<Rightarrow> string \<Rightarrow> 'd \<Rightarrow> 'd" where
  "getDouble m k dflt = (if hasKey m k then asDouble m k else dflt)"

text \<open>
  \<^verbatim>\<open>GasKinetics::setJacobianSettings\<close>. The members assigned before the exception is thrown
  stay assigned, so the state is returned beside the exception.
\<close>

definition setJacobianSettings ::
  "('d, 'k, 'r, 'f, 't, 'b, 's, 'm) Env \<Rightarrow> 'd AnyMap \<Rightarrow>
   ('d, 'k, 'r, 'f, 't, 'b, 's) GasKinetics \<Rightarrow>
   error option \<times> ('d, 'k, 'r, 'f, 't, 'b, 's) GasKinetics" where
  "setJacobianSettings E settings s =
    (let force = AnyMap_empty settings;
         s1 = (if force \<or> hasKey settings ''constant-pressure''
               then s\<lparr>m_jac_const_pressure := getBool settings ''constant-pressure'' True\<rparr>
               else s);
         s2 = (if force \<or> hasKey settings ''mole-fractions''
               then s1\<lparr>m_jac_mole_fractions := getBool settings ''mole-fractions'' True\<rparr>
               else s1);
         s3 = (if force \<or> hasKey settings ''skip-third-bodies''
               then s2\<lparr>m_jac_skip_third_bodies := getBool settings ''skip-third-bodies'' False\<rparr>
               else s2);
         s4 = (if force \<or> hasKey settings ''skip-falloff''
               then s3\<lparr>m_jac_skip_falloff := getBool settings ''skip-falloff'' True\<rparr>
               else s3)
     in if \<not> m_jac_skip_falloff s4
        then (Some (NotImplementedError ''GasKinetics::setJacobianSettings''
                ''Derivative term related to reaction rate dependence on third bodies is not implemented.''),
              s4\<lparr>m_jac_skip_falloff := True\<rparr>)
        else (None,
              if force \<or> hasKey settings ''rtol-delta-T''
              then s4\<lparr>m_jac_rtol_deltaT := getDouble settings ''rtol-delta-T'' (lit_1e_6 E)\<rparr>
              else s4))"

text \<open>
  The constructor \<^verbatim>\<open>GasKinetics::GasKinetics\<close>, applied to the object that the constructor
  of the base class leaves: two members are initialised and the default settings installed.
\<close>

definition GasKinetics_ctor ::
  "('d::zero, 'k, 'r, 'f, 't, 'b, 's, 'm) Env \<Rightarrow>
   ('d, 'k, 'r, 'f, 't, 'b, 's) GasKinetics \<Rightarrow>
   error option \<times> ('d, 'k, 'r, 'f, 't, 'b, 's) GasKinetics" where
  "GasKinetics_ctor E s =
    setJacobianSettings E \<lparr>keys = [], asBool = (\<lambda>k. False), asDouble = (\<lambda>k. 0)\<rparr>
      (s\<lparr>m_logStandConc := 0, m_pres := 0\<rparr>)"

subsection \<open>Derivatives\<close>

text \<open>\<^verbatim>\<open>GasKinetics::checkLegacyRates\<close>.\<close>

definition checkLegacyRates ::
  "string \<Rightarrow> ('d, 'k, 'r, 'f, 't, 'b, 's) GasKinetics \<Rightarrow> error option" where
  "checkLegacyRates name s =
    (if length (m_legacy s) \<noteq> 0
     then Some (CanteraError name ''Not supported for legacy (CTI/XML) input format.'' [])
     else None)"

text \<open>
  \<^verbatim>\<open>Eigen::VectorXd v(n)\<close> allocates \<open>n\<close> entries and leaves them unset. The sum and the
  difference of two vectors are taken entry by entry. An \<^verbatim>\<open>Eigen::Map\<close> over the data of
  a buffer is that buffer: each buffer has \<^verbatim>\<open>nReactions()\<close> entries.
\<close>

definition VectorXd :: "nat \<Rightarrow> 'd list" where
  "VectorXd n = replicate n undefined"

definition vec_add :: "'d::plus list \<Rightarrow> 'd list \<Rightarrow> 'd list" where
  "vec_add xs ys = map2 (+) xs ys"

definition vec_sub :: "'d::minus list \<Rightarrow> 'd list \<Rightarrow> 'd list" where
  "vec_sub xs ys = map2 (-) xs ys"

text \<open>The loops over \<^verbatim>\<open>m_bulk_rates\<close> that let each evaluator process a vector.\<close>

definition bulk_ddT ::
  "('d, 'k, 'r, 'f, 't, 'b, 's, 'm) Env \<Rightarrow> ('d, 'k, 'r, 'f, 't, 'b, 's) GasKinetics \<Rightarrow>
   'd \<Rightarrow> 'd list \<Rightarrow> 'd list" where
  "bulk_ddT E s deltaT v =
    fold (\<lambda>b w. MultiRate_processRateConstants_ddT E b w (m_rfn s) deltaT) (m_bulk_rates s) v"

definition bulk_ddM ::
  "('d, 'k, 'r, 'f, 't, 'b, 's, 'm) Env \<Rightarrow> ('d, 'k, 'r, 'f, 't, 'b, 's) GasKinetics \<Rightarrow>
   'd \<Rightarrow> 'd list \<Rightarrow> 'd list" where
  "bulk_ddM E s deltaT v =
    fold (\<lambda>b w. MultiRate_processRateConstants_ddM E b w (m_rfn s) deltaT) (m_bulk_rates s) v"

text \<open>\<^verbatim>\<open>GasKinetics::processConcentrations_ddT\<close>.\<close>

definition processConcentrations_ddT ::
  "('d::{one,plus,minus,uminus,times,inverse}, 'k, 'r, 'f, 't, 'b, 's, 'm) Env \<Rightarrow> 'd list \<Rightarrow>
   ('d, 'k, 'r, 'f, 't, 'b, 's) GasKinetics \<Rightarrow> 'd list \<times> ('d, 'k, 'r, 'f, 't, 'b, 's) GasKinetics" where
  "processConcentrations_ddT E rop s =
    (let (dctot_dT, s3) =
           (if phase_type (thermo s) = ''IdealGas''
            then (- molarDensity (thermo s) / temperature (thermo s), s)
            else (let T = temperature (thermo s);
                      P = pressure (thermo s);
                      s1 = s\<lparr>thermo := setState_TP E (thermo s) (T * (1 + m_jac_rtol_deltaT s)) P\<rparr>;
                      ctot1 = molarDensity (thermo s1);
                      s2 = s1\<lparr>thermo := setState_TP E (thermo s1) T P\<rparr>;
                      ctot0 = molarDensity (thermo s2)
                  in ((ctot1 - ctot0) / (T * m_jac_rtol_deltaT s2), s2)))
     in (for_upto (nReactions s3) (\<lambda>i w. w ! i * dctot_dT) rop, s3))"

text \<open>\<^verbatim>\<open>GasKinetics::processEquilibriumConstants_ddT\<close>.\<close>

definition processEquilibriumConstants_ddT ::
  "('d::{zero,one,plus,minus,uminus,times,inverse,ord}, 'k, 'r, 'f, 't, 'b, 's, 'm) Env \<Rightarrow> 'd list \<Rightarrow>
   ('d, 'k, 'r, 'f, 't, 'b, 's) GasKinetics \<Rightarrow> 'd list \<times> ('d, 'k, 'r, 'f, 't, 'b, 's) GasKinetics" where
  "processEquilibriumConstants_ddT E drkcn s =
    (let T = temperature (thermo s);
         P = pressure (thermo s);
         dTinv = 1 / (m_jac_rtol_deltaT s * T);
         s1 = s\<lparr>thermo := setState_TP E (thermo s) (T * (1 + m_jac_rtol_deltaT s)) P\<rparr>;
         (kc1, s2) = getEquilibriumConstants E (m_rbuf1 s1) s1;
         s3 = s2\<lparr>m_rbuf1 := kc1\<rparr>;
         s4 = s3\<lparr>thermo := setState_TP E (thermo s3) T P\<rparr>;
         (kc0, s5) = getEquilibriumConstants E (m_rbuf0 s4) s4;
         s6 = s5\<lparr>m_rbuf0 := kc0\<rparr>;
         d1 = for_upto (nReactions s6)
                (\<lambda>i w. w ! i * ((m_rbuf0 s6 ! i - m_rbuf1 s6 ! i) * dTinv) / m_rbuf0 s6 ! i) drkcn
     in (fold (\<lambda>irxn w. w[irxn := 0]) (m_irrev s6) d1, s6))"

text \<open>\<^verbatim>\<open>GasKinetics::scaleConcentrations\<close>.\<close>

definition scaleConcentrations ::
  "'d::times list \<Rightarrow> ('d, 'k, 'r, 'f, 't, 'b, 's) GasKinetics \<Rightarrow> 'd list" where
  "scaleConcentrations rates s =
    for_upto (nReactions s) (\<lambda>i w. w ! i * molarDensity (thermo s)) rates"

text \<open>\<^verbatim>\<open>GasKinetics::fwdRateConstants_ddT\<close>.\<close>

definition fwdRateConstants_ddT ::
  "('d::{zero,one,plus,minus,uminus,times,inverse,ord}, 'k, 'r, 'f, 't, 'b, 's, 'm) Env \<Rightarrow>
   ('d, 'k, 'r, 'f, 't, 'b, 's) GasKinetics \<Rightarrow>
   error + 'd list \<times> ('d, 'k, 'r, 'f, 't, 'b, 's) GasKinetics" where
  "fwdRateConstants_ddT E s =
    (case checkLegacyRates ''GasKinetics::fwdRateConstants_ddT'' s of
       Some e \<Rightarrow> Inl e
     | None \<Rightarrow>
    (case updateROP E s of
       Inl e \<Rightarrow> Inl e
     | Inr s1 \<Rightarrow>
        (let dFwdKc = std_copy (m_rfn s1) (VectorXd (nReactions s1));
             s2 = (if m_jac_const_pressure s1
                   then s1\<lparr>m_rbuf2 := std_copy dFwdKc (m_rbuf2 s1)\<rparr> else s1);
             dFwdKc1 = bulk_ddT E s2 (m_jac_rtol_deltaT s2) dFwdKc
         in if m_jac_const_pressure s2
            then (let s3 = s2\<lparr>m_rbuf2 := bulk_ddM E s2 (m_jac_rtol_deltaT s2) (m_rbuf2 s2)\<rparr>;
                      (rop, s4) = processConcentrations_ddT E (m_rbuf2 s3) s3;
                      s5 = s4\<lparr>m_rbuf2 := rop\<rparr>
                  in Inr (vec_add dFwdKc1 (m_rbuf2 s5), s5))
            else Inr (dFwdKc1, s2))))"

text \<open>\<^verbatim>\<open>GasKinetics::fwdRatesOfProgress_ddT\<close>.\<close>

definition fwdRatesOfProgress_ddT ::
  "('d::{zero,one,plus,minus,uminus,times,inverse,ord}, 'k, 'r, 'f, 't, 'b, 's, 'm) Env \<Rightarrow>
   ('d, 'k, 'r, 'f, 't, 'b, 's) GasKinetics \<Rightarrow>
   error + 'd list \<times> ('d, 'k, 'r, 'f, 't, 'b, 's) GasKinetics" where
  "fwdRatesOfProgress_ddT E s =
    (case checkLegacyRates ''GasKinetics::fwdRatesOfProgress_ddT'' s of
       Some e \<Rightarrow> Inl e
     | None \<Rightarrow>
    (case updateROP E s of
       Inl e \<Rightarrow> Inl e
     | Inr s1 \<Rightarrow>
        (let dFwdRop = std_copy (m_ropf s1) (VectorXd (nReactions s1));
             dFwdRop1 = bulk_ddT E s1 (m_jac_rtol_deltaT s1) dFwdRop
         in if m_jac_const_pressure s1
            then (let s2 = s1\<lparr>m_rbuf1 := std_fill (m_rbuf1 s1) 0\<rparr>;
                      s3 = s2\<lparr>m_rbuf1 :=
                             Stoich_scale E (m_reactantStoich s2) (m_ropf s2) (m_rbuf1 s2)\<rparr>;
                      s4 = s3\<lparr>m_rbuf2 := std_copy (m_ropf s3) (m_rbuf2 s3)\<rparr>;
                      s5 = s4\<lparr>m_rbuf2 := bulk_ddM E s4 (m_jac_atol_deltaT s4) (m_rbuf2 s4)\<rparr>;
                      s6 = s5\<lparr>m_rbuf2 :=
                             ThirdBodyCalc_scaleOrder E (m_multi_concm s5) (m_ropf s5) (m_rbuf2 s5)\<rparr>;
                      s7 = s6\<lparr>m_rbuf1 := vec_add (m_rbuf1 s6) (m_rbuf2 s6)\<rparr>;
                      (rop, s8) = processConcentrations_ddT E (m_rbuf1 s7) s7;
                      s9 = s8\<lparr>m_rbuf1 := rop\<rparr>
                  in Inr (vec_add dFwdRop1 (m_rbuf1 s9), s9))
            else Inr (dFwdRop1, s1))))"

text \<open>\<^verbatim>\<open>GasKinetics::revRatesOfProgress_ddT\<close>.\<close>

definition revRatesOfProgress_ddT ::
  "('d::{zero,one,plus,minus,uminus,times,inverse,ord}, 'k, 'r, 'f, 't, 'b, 's, 'm) Env \<Rightarrow>
   ('d, 'k, 'r, 'f, 't, 'b, 's) GasKinetics \<Rightarrow>
   error + 'd list \<times> ('d, 'k, 'r, 'f, 't, 'b, 's) GasKinetics" where
  "revRatesOfProgress_ddT E s =
    (case checkLegacyRates ''GasKinetics::revRatesOfProgress_ddT'' s of
       Some e \<Rightarrow> Inl e
     | None \<Rightarrow>
    (case updateROP E s of
       Inl e \<Rightarrow> Inl e
     | Inr s1 \<Rightarrow>
        (let dRevRop = std_copy (m_ropr s1) (VectorXd (nReactions s1));
             dRevRop1 = bulk_ddT E s1 (m_jac_rtol_deltaT s1) dRevRop;
             s2 = s1\<lparr>m_rbuf2 := std_copy (m_ropr s1) (m_rbuf2 s1)\<rparr>;
             (drkcn, s3) = processEquilibriumConstants_ddT E (m_rbuf2 s2) s2;
             s4 = s3\<lparr>m_rbuf2 := drkcn\<rparr>;
             dRevRop2 = vec_add dRevRop1 (m_rbuf2 s4)
         in if m_jac_const_pressure s4
            then (let s5 = s4\<lparr>m_rbuf1 := std_fill (m_rbuf1 s4) 0\<rparr>;
                      s6 = s5\<lparr>m_rbuf1 :=
                             Stoich_scale E (m_revProductStoich s5) (m_ropr s5) (m_rbuf1 s5)\<rparr>;
                      s7 = s6\<lparr>m_rbuf2 := std_copy (m_ropr s6) (m_rbuf2 s6)\<rparr>;
                      s8 = s7\<lparr>m_rbuf2 := bulk_ddM E s7 (m_jac_atol_deltaT s7) (m_rbuf2 s7)\<rparr>;
                      s9 = s8\<lparr>m_rbuf2 :=
                             ThirdBodyCalc_scaleOrder E (m_multi_concm s8) (m_ropr s8) (m_rbuf2 s8)\<rparr>;
                      (rop, s10) = processConcentrations_ddT E (m_rbuf1 s9) s9;
                      s11 = s10\<lparr>m_rbuf1 := rop\<rparr>
                  in Inr (vec_add dRevRop2 (m_rbuf1 s11), s11))
            else Inr (dRevRop2, s4))))"

text \<open>
  \<^verbatim>\<open>GasKinetics::netRatesOfProgress_ddT\<close>. The language leaves the order of the two
  calls open; the forward one is taken first.
\<close>

definition netRatesOfProgress_ddT ::
  "('d::{zero,one,plus,minus,uminus,times,inverse,ord}, 'k, 'r, 'f, 't, 'b, 's, 'm) Env \<Rightarrow>
   ('d, 'k, 'r, 'f, 't, 'b, 's) GasKinetics \<Rightarrow>
   error + 'd list \<times> ('d, 'k, 'r, 'f, 't, 'b, 's) GasKinetics" where
  "netRatesOfProgress_ddT E s =
    (case checkLegacyRates ''GasKinetics::netRatesOfProgress_ddT'' s of
       Some e \<Rightarrow> Inl e
     | None \<Rightarrow>
    (case fwdRatesOfProgress_ddT E s of
       Inl e \<Rightarrow> Inl e
     | Inr (dFwdRop, s1) \<Rightarrow>
    (case revRatesOfProgress_ddT E s1 of
       Inl e \<Rightarrow> Inl e
     | Inr (dRevRop, s2) \<Rightarrow> Inr (vec_sub dFwdRop dRevRop, s2))))"

text \<open>\<^verbatim>\<open>GasKinetics::fwdRatesOfProgress_ddC\<close>.\<close>

definition fwdRatesOfProgress_ddC ::
  "('d::{zero,one,plus,minus,times,inverse,ord}, 'k, 'r, 'f, 't, 'b, 's, 'm) Env \<Rightarrow>
   ('d, 'k, 'r, 'f, 't, 'b, 's) GasKinetics \<Rightarrow>
   error + 'm \<times> ('d, 'k, 'r, 'f, 't, 'b, 's) GasKinetics" where
  "fwdRatesOfProgress_ddC E s =
    (case checkLegacyRates ''GasKinetics::fwdRatesOfProgress_ddC'' s of
       Some e \<Rightarrow> Inl e
     | None \<Rightarrow>
    (case processFwdRateCoefficients E (m_rbuf0 s) s of
       Inl e \<Rightarrow> Inl e
     | Inr (rop_rates, s1) \<Rightarrow>
        (let s2 = s1\<lparr>m_rbuf0 := rop_rates\<rparr>;
             s3 = (if m_jac_mole_fractions s2
                   then s2\<lparr>m_rbuf0 := scaleConcentrations (m_rbuf0 s2) s2\<rparr> else s2);
             s4 = s3\<lparr>m_rbuf1 := std_copy (m_rbuf0 s3) (m_rbuf1 s3)\<rparr>;
             s5 = s4\<lparr>m_rbuf1 := processThirdBodies E (m_rbuf1 s4) s4\<rparr>;
             jac = Stoich_jacobian E (m_reactantStoich s5) (m_act_conc s5) (m_rbuf1 s5)
         in if \<not> m_jac_skip_third_bodies s5 \<and> m_concm s5 \<noteq> []
            then (let s6 = s5\<lparr>m_rbuf2 := std_copy (m_rbuf0 s5) (m_rbuf2 s5)\<rparr>;
                      s7 = s6\<lparr>m_rbuf2 :=
                             Stoich_multiply E (m_reactantStoich s6) (m_act_conc s6) (m_rbuf2 s6)\<rparr>
                  in Inr (mat_add E jac (ThirdBodyCalc_jacobian E (m_multi_concm s7) (m_rbuf2 s7)),
                          s7))
            else Inr (jac, s5))))"

text \<open>\<^verbatim>\<open>GasKinetics::revRatesOfProgress_ddC\<close>.\<close>

definition revRatesOfProgress_ddC ::
  "('d::{zero,one,plus,minus,times,inverse,ord}, 'k, 'r, 'f, 't, 'b, 's, 'm) Env \<Rightarrow>
   ('d, 'k, 'r, 'f, 't, 'b, 's) GasKinetics \<Rightarrow>
   error + 'm \<times> ('d, 'k, 'r, 'f, 't, 'b, 's) GasKinetics" where
  "revRatesOfProgress_ddC E s =
    (case checkLegacyRates ''GasKinetics::revRatesOfProgress_ddC'' s of
       Some e \<Rightarrow> Inl e
     | None \<Rightarrow>
    (case processFwdRateCoefficients E (m_rbuf0 s) s of
       Inl e \<Rightarrow> Inl e
     | Inr (rop_rates, s1) \<Rightarrow>
        (let s2 = s1\<lparr>m_rbuf0 := rop_rates\<rparr>;
             s2a = s2\<lparr>m_rbuf0 := processEquilibriumConstants (m_rbuf0 s2) s2\<rparr>;
             s3 = (if m_jac_mole_fractions s2a
                   then s2a\<lparr>m_rbuf0 := scaleConcentrations (m_rbuf0 s2a) s2a\<rparr> else s2a);
             s4 = s3\<lparr>m_rbuf1 := std_copy (m_rbuf0 s3) (m_rbuf1 s3)\<rparr>;
             s5 = s4\<lparr>m_rbuf1 := processThirdBodies E (m_rbuf1 s4) s4\<rparr>;
             jac = Stoich_jacobian E (m_revProductStoich s5) (m_act_conc s5) (m_rbuf1 s5)
         in if \<not> m_jac_skip_third_bodies s5 \<and> m_concm s5 \<noteq> []
            then (let s6 = s5\<lparr>m_rbuf2 := std_copy (m_rbuf0 s5) (m_rbuf2 s5)\<rparr>;
                      s7 = s6\<lparr>m_rbuf2 :=
                             Stoich_multiply E (m_revProductStoich s6) (m_act_conc s6) (m_rbuf2 s6)\<rparr>
                  in Inr (mat_add E jac (ThirdBodyCalc_jacobian E (m_multi_concm s7) (m_rbuf2 s7)),
                          s7))
            else Inr (jac, s5))))"

text \<open>\<^verbatim>\<open>GasKinetics::netRatesOfProgress_ddC\<close>.\<close>

definition netRatesOfProgress_ddC ::
  "('d::{zero,one,plus,minus,times,inverse,ord}, 'k, 'r, 'f, 't, 'b, 's, 'm) Env \<Rightarrow>
   ('d, 'k, 'r, 'f, 't, 'b, 's) GasKinetics \<Rightarrow>
   error + 'm \<times> ('d, 'k, 'r, 'f, 't, 'b, 's) GasKinetics" where
  "netRatesOfProgress_ddC E s =
    (case checkLegacyRates ''GasKinetics::netRatesOfProgress_ddC'' s of
       Some e \<Rightarrow> Inl e
     | None \<Rightarrow>
    (case processFwdRateCoefficients E (m_rbuf0 s) s of
       Inl e \<Rightarrow> Inl e
     | Inr (rop_rates, s1) \<Rightarrow>
        (let s2 = s1\<lparr>m_rbuf0 := rop_rates\<rparr>;
             s3 = (if m_jac_mole_fractions s2
                   then s2\<lparr>m_rbuf0 := scaleConcentrations (m_rbuf0 s2) s2\<rparr> else s2);
             s4 = s3\<lparr>m_rbuf1 := std_copy (m_rbuf0 s3) (m_rbuf1 s3)\<rparr>;
             s5 = s4\<lparr>m_rbuf1 := processThirdBodies E (m_rbuf1 s4) s4\<rparr>;
             jac = Stoich_jacobian E (m_reactantStoich s5) (m_act_conc s5) (m_rbuf1 s5);
             (jac1, s7) =
               (if \<not> m_jac_skip_third_bodies s5 \<and> m_concm s5 \<noteq> []
                then (let s6 = s5\<lparr>m_rbuf2 := std_copy (m_rbuf0 s5) (m_rbuf2 s5)\<rparr>;
                          s6a = s6\<lparr>m_rbuf2 :=
                                  Stoich_multiply E (m_reactantStoich s6) (m_act_conc s6)
                                    (m_rbuf2 s6)\<rparr>
                      in (mat_add E jac (ThirdBodyCalc_jacobian E (m_multi_concm s6a) (m_rbuf2 s6a)),
                          s6a))
                else (jac, s5));
             s8 = s7\<lparr>m_rbuf0 := processEquilibriumConstants (m_rbuf0 s7) s7\<rparr>;
             s9 = s8\<lparr>m_rbuf1 := std_copy (m_rbuf0 s8) (m_rbuf1 s8)\<rparr>;
             s10 = s9\<lparr>m_rbuf1 := processThirdBodies E (m_rbuf1 s9) s9\<rparr>;
             jac2 = mat_sub E jac1
                      (Stoich_jacobian E (m_revProductStoich s10) (m_act_conc s10) (m_rbuf1 s10))
         in if \<not> m_jac_skip_third_bodies s10 \<and> m_concm s10 \<noteq> []
            then (let s11 = s10\<lparr>m_rbuf2 := std_copy (m_rbuf0 s10) (m_rbuf2 s10)\<rparr>;
                      s12 = s11\<lparr>m_rbuf2 :=
                              Stoich_multiply E (m_revProductStoich s11) (m_act_conc s11)
                                (m_rbuf2 s11)\<rparr>
                  in Inr (mat_sub E jac2
                            (ThirdBodyCalc_jacobian E (m_multi_concm s12) (m_rbuf2 s12)),
                          s12))
            else Inr (jac2, s10))))"

subsection \<open>Adding and replacing reactions\<close>

text \<open>
  Modelled from the spec: \<^verbatim>\<open>BulkKinetics::invalidateCache\<close>, which is not in the file. A
  structural mutation perturbs the cached temperature sentinel by a fixed offset.
\<close>

definition BulkKinetics_invalidateCache ::
  "('d::plus, 'k, 'r, 'f, 't, 'b, 's, 'm) Env \<Rightarrow>
   ('d, 'k, 'r, 'f, 't, 'b, 's) GasKinetics \<Rightarrow> ('d, 'k, 'r, 'f, 't, 'b, 's) GasKinetics" where
  "BulkKinetics_invalidateCache E s = s\<lparr>m_temp := m_temp s + BulkKinetics_offset E\<rparr>"

text \<open>\<^verbatim>\<open>GasKinetics::invalidateCache\<close>.\<close>

definition invalidateCache ::
  "('d::plus, 'k, 'r, 'f, 't, 'b, 's, 'm) Env \<Rightarrow>
   ('d, 'k, 'r, 'f, 't, 'b, 's) GasKinetics \<Rightarrow> ('d, 'k, 'r, 'f, 't, 'b, 's) GasKinetics" where
  "invalidateCache E s =
    (let s1 = BulkKinetics_invalidateCache E s
     in s1\<lparr>m_pres := m_pres s1 + lit_0_13579 E\<rparr>)"

text \<open>\<^verbatim>\<open>std::vector::resize(n)\<close>: new entries are zero.\<close>

definition std_resize :: "'d::zero list \<Rightarrow> nat \<Rightarrow> 'd list" where
  "std_resize v n = take n v @ replicate (n - length v) 0"

text \<open>
  \<^verbatim>\<open>GasKinetics::resizeReactions\<close>. Modelled from the spec: the part of the base class,
  \<^verbatim>\<open>BulkKinetics::resizeReactions\<close>, is not in the file; the caches of the base class are
  per-reaction vectors, which grow as a reaction is added, and nothing is left to it here.
\<close>

definition resizeReactions ::
  "('d::zero, 'k, 'r, 'f, 't, 'b, 's) GasKinetics \<Rightarrow> ('d, 'k, 'r, 'f, 't, 'b, 's) GasKinetics" where
  "resizeReactions s =
    (let s1 = s\<lparr>m_rbuf0 := std_resize (m_rbuf0 s) (nReactions s)\<rparr>;
         s2 = s1\<lparr>m_rbuf1 := std_resize (m_rbuf1 s1) (nReactions s1)\<rparr>
     in s2\<lparr>m_rbuf2 := std_resize (m_rbuf2 s2) (nReactions s2)\<rparr>)"

text \<open>
  Modelled from the spec: \<^verbatim>\<open>BulkKinetics::addReaction\<close>, which is not in the file. A
  reaction that the registry does not accept is not added. An accepted reaction takes the
  next index: every per-reaction cache grows by one entry, the perturbation factor being
  1; the net mole change is fixed and the index is filed under the reversible or the
  irreversible reactions; a reaction of the current construction path is handed to its
  rate evaluator; the caches are resized on request; and, as for every structural
  mutation, the cached quantities are invalidated.
\<close>

definition BulkKinetics_addReaction ::
  "('d::{zero,one,plus}, 'k, 'r, 'f, 't, 'b, 's, 'm) Env \<Rightarrow> ('d, 'k) Reaction \<Rightarrow> bool \<Rightarrow>
   ('d, 'k, 'r, 'f, 't, 'b, 's) GasKinetics \<Rightarrow> bool \<times> ('d, 'k, 'r, 'f, 't, 'b, 's) GasKinetics" where
  "BulkKinetics_addReaction E r resize s =
    (if \<not> Kinetics_accepts E s r then (False, s)
     else (let s1 = s\<lparr>m_reactions := m_reactions s @ [r],
                      m_rfn := m_rfn s @ [0],
                      m_rkcn := m_rkcn s @ [0],
                      m_ropf := m_ropf s @ [0],
                      m_ropr := m_ropr s @ [0],
                      m_ropnet := m_ropnet s @ [0],
                      m_perturb := m_perturb s @ [1],
                      m_dn := m_dn s @ [delta_n r],
                      m_concm := m_concm s @ [0]\<rparr>;
               s2 = (if reversible r
                     then s1\<lparr>m_revindex := m_revindex s1 @ [nReactions s1 - 1]\<rparr>
                     else s1\<lparr>m_irrev := m_irrev s1 @ [nReactions s1 - 1]\<rparr>);
               s3 = (if \<not> usesLegacy r
                     then s2\<lparr>m_bulk_rates :=
                              MultiRate_add E (m_bulk_rates s2) (nReactions s2 - 1) r\<rparr>
                     else s2);
               s4 = (if resize then resizeReactions s3 else s3)
           in (True, invalidateCache E s4)))"


text \<open>
  Modelled from the spec: \<^verbatim>\<open>BulkKinetics::addElementaryReaction\<close> and
  \<^verbatim>\<open>BulkKinetics::modifyElementaryReaction\<close>, which are not in the file. The rate
  expression is installed in, or replaced in, the evaluator of the elementary reactions
  at the index of the reaction.
\<close>

definition addElementaryReaction ::
  "('d, 'k, 'r, 'f, 't, 'b, 's, 'm) Env \<Rightarrow> ('d, 'k) Reaction \<Rightarrow>
   ('d, 'k, 'r, 'f, 't, 'b, 's) GasKinetics \<Rightarrow> ('d, 'k, 'r, 'f, 't, 'b, 's) GasKinetics" where
  "addElementaryReaction E r s =
    s\<lparr>m_rates := Rate1_install E (m_rates s) (nReactions s - 1) (rate r)\<rparr>"


text \<open>
  The map \<^verbatim>\<open>efficiencies\<close> that \<^verbatim>\<open>addFalloffReaction\<close> and \<^verbatim>\<open>addThreeBodyReaction\<close>
  build from the third-body efficiencies of the reaction: a species the kinetics manager
  does not know (\<^verbatim>\<open>npos\<close>, here \<open>None\<close>) is left out.
\<close>

definition species_efficiencies ::
  "('d, 'k, 'r, 'f, 't, 'b, 's, 'm) Env \<Rightarrow> ('d, 'k, 'r, 'f, 't, 'b, 's) GasKinetics \<Rightarrow>
   ('d, 'k) Reaction \<Rightarrow> (nat \<rightharpoonup> 'd)" where
  "species_efficiencies E s r =
    fold (\<lambda>(name, eff) m. case kineticsSpeciesIndex E s name of
                             None \<Rightarrow> m
                           | Some k \<Rightarrow> m(k \<mapsto> eff))
         (efficiencies r) Map.empty"

text \<open>\<^verbatim>\<open>GasKinetics::addFalloffReaction\<close>.\<close>

definition addFalloffReaction ::
  "('d::zero, 'k, 'r, 'f, 't, 'b, 's, 'm) Env \<Rightarrow> ('d, 'k) Reaction \<Rightarrow>
   ('d, 'k, 'r, 'f, 't, 'b, 's) GasKinetics \<Rightarrow> ('d, 'k, 'r, 'f, 't, 'b, 's) GasKinetics" where
  "addFalloffReaction E r s =
    (let nfall = Rate1_nReactions E (m_falloff_high_rates s);
         s1 = s\<lparr>m_falloff_high_rates :=
                  Rate1_install E (m_falloff_high_rates s) nfall (high_rate r)\<rparr>;
         s2 = s1\<lparr>m_rfn_high := m_rfn_high s1 @ [0]\<rparr>;
         s3 = s2\<lparr>m_falloff_low_rates :=
                  Rate1_install E (m_falloff_low_rates s2) nfall (low_rate r)\<rparr>;
         s4 = s3\<lparr>m_rfn_low := m_rfn_low s3 @ [0]\<rparr>;
         s5 = s4\<lparr>m_fallindx := m_fallindx s4 @ [nReactions s4 - 1]\<rparr>;
         s6 = s5\<lparr>m_rfallindx := (m_rfallindx s5)(nReactions s5 - 1 \<mapsto> nfall)\<rparr>;
         s7 = s6\<lparr>m_falloff_concm :=
                  ThirdBodyCalc_install E (m_falloff_concm s6) nfall (species_efficiencies E s6 r)
                    (default_efficiency r) (Some (nReactions s6 - 1))\<rparr>;
         s8 = s7\<lparr>concm_falloff_values :=
                  std_resize (concm_falloff_values s7)
                    (ThirdBodyCalc_workSize E (m_falloff_concm s7))\<rparr>;
         s9 = s8\<lparr>m_falloffn := FalloffMgr_install E (m_falloffn s8) nfall (rtype r) (falloff r)\<rparr>
     in s9\<lparr>falloff_work :=
              std_resize (falloff_work s9) (FalloffMgr_workSize E (m_falloffn s9))\<rparr>)"

text \<open>\<^verbatim>\<open>GasKinetics::addThreeBodyReaction\<close>.\<close>

definition addThreeBodyReaction ::
  "('d::zero, 'k, 'r, 'f, 't, 'b, 's, 'm) Env \<Rightarrow> ('d, 'k) Reaction \<Rightarrow>
   ('d, 'k, 'r, 'f, 't, 'b, 's) GasKinetics \<Rightarrow> ('d, 'k, 'r, 'f, 't, 'b, 's) GasKinetics" where
  "addThreeBodyReaction E r s =
    (let s1 = s\<lparr>m_rates := Rate1_install E (m_rates s) (nReactions s - 1) (rate r)\<rparr>;
         s2 = s1\<lparr>m_3b_concm :=
                  ThirdBodyCalc_install E (m_3b_concm s1) (nReactions s1 - 1)
                    (species_efficiencies E s1 r) (default_efficiency r) None\<rparr>
     in s2\<lparr>concm_3b_values :=
              std_resize (concm_3b_values s2) (ThirdBodyCalc_workSize E (m_3b_concm s2))\<rparr>)"

text \<open>\<^verbatim>\<open>GasKinetics::addPlogReaction\<close> and \<^verbatim>\<open>GasKinetics::addChebyshevReaction\<close>.\<close>

definition addPlogReaction ::
  "('d, 'k, 'r, 'f, 't, 'b, 's, 'm) Env \<Rightarrow> ('d, 'k) Reaction \<Rightarrow>
   ('d, 'k, 'r, 'f, 't, 'b, 's) GasKinetics \<Rightarrow> ('d, 'k, 'r, 'f, 't, 'b, 's) GasKinetics" where
  "addPlogReaction E r s =
    s\<lparr>m_plog_rates := Rate1_install E (m_plog_rates s) (nReactions s - 1) (rate r)\<rparr>"

definition addChebyshevReaction ::
  "('d, 'k, 'r, 'f, 't, 'b, 's, 'm) Env \<Rightarrow> ('d, 'k) Reaction \<Rightarrow>
   ('d, 'k, 'r, 'f, 't, 'b, 's) GasKinetics \<Rightarrow> ('d, 'k, 'r, 'f, 't, 'b, 's) GasKinetics" where
  "addChebyshevReaction E r s =
    s\<lparr>m_cheb_rates := Rate1_install E (m_cheb_rates s) (nReactions s - 1) (rate r)\<rparr>"

text \<open>The message template \<^verbatim>\<open>Unknown reaction type specified: '{}'\<close>.\<close>

definition unknown_type_msg :: string where
  "unknown_type_msg = ''Unknown reaction type specified: '' @ [CHR 0x27] @ ''{}'' @ [CHR 0x27]"

text \<open>\<^verbatim>\<open>GasKinetics::addReaction\<close>.\<close>

definition addReaction ::
  "('d::{zero,one,plus}, 'k, 'r, 'f, 't, 'b, 's, 'm) Env \<Rightarrow> ('d, 'k) Reaction \<Rightarrow> bool \<Rightarrow>
   ('d, 'k, 'r, 'f, 't, 'b, 's) GasKinetics \<Rightarrow>
   error + bool \<times> ('d, 'k, 'r, 'f, 't, 'b, 's) GasKinetics" where
  "addReaction E r resize s =
    (let (added, s1) = BulkKinetics_addReaction E r resize s
     in if \<not> added then Inr (False, s1)
        else if \<not> usesLegacy r then Inr (True, s1)
        else (case (if rtype r = ''elementary-legacy'' then Inr (addElementaryReaction E r s1)
                    else if rtype r = ''three-body-legacy'' then Inr (addThreeBodyReaction E r s1)
                    else if rtype r = ''falloff-legacy'' then Inr (addFalloffReaction E r s1)
                    else if rtype r = ''chemically-activated-legacy''
                      then Inr (addFalloffReaction E r s1)
                    else if rtype r = ''pressure-dependent-Arrhenius-legacy''
                      then Inr (addPlogReaction E r s1)
                    else if rtype r = ''Chebyshev-legacy'' then Inr (addChebyshevReaction E r s1)
                    else Inl (CanteraError ''GasKinetics::addReaction'' unknown_type_msg
                                [ArgStr (rtype r)])) of
                Inl e \<Rightarrow> Inl e
              | Inr s2 \<Rightarrow> Inr (True, s2\<lparr>m_legacy := m_legacy s2 @ [nReactions s2 - 1]\<rparr>)))"






section \<open>A concrete instance\<close>

text \<open>
  Numbers for running the definitions: the reals and one value that is not finite.
  Every operation with an argument that is not finite, and the division by zero, give
  the value that is not finite; it compares unequal to everything, itself included.
\<close>

datatype num = Fin real | NaN

instantiation num :: "{zero,one,plus,minus,uminus,times,inverse,ord}"
begin

definition zero_num :: num where "zero_num = Fin 0"

definition one_num :: num where "one_num = Fin 1"

fun plus_num :: "num \<Rightarrow> num \<Rightarrow> num" where
  "plus_num (Fin a) (Fin b) = Fin (a + b)"
| "plus_num _ _ = NaN"

fun minus_num :: "num \<Rightarrow> num \<Rightarrow> num" where
  "minus_num (Fin a) (Fin b) = Fin (a - b)"
| "minus_num _ _ = NaN"

fun uminus_num :: "num \<Rightarrow> num" where
  "uminus_num (Fin a) = Fin (- a)"
| "uminus_num NaN = NaN"

fun times_num :: "num \<Rightarrow> num \<Rightarrow> num" where
  "times_num (Fin a) (Fin b) = Fin (a * b)"
| "times_num _ _ = NaN"

fun divide_num :: "num \<Rightarrow> num \<Rightarrow> num" where
  "divide_num (Fin a) (Fin b) = (if b = 0 then NaN else Fin (a / b))"
| "divide_num _ _ = NaN"

fun inverse_num :: "num \<Rightarrow> num" where
  "inverse_num (Fin a) = (if a = 0 then NaN else Fin (1 / a))"
| "inverse_num NaN = NaN"

fun less_num :: "num \<Rightarrow> num \<Rightarrow> bool" where
  "less_num (Fin a) (Fin b) = (a < b)"
| "less_num _ _ = False"

fun less_eq_num :: "num \<Rightarrow> num \<Rightarrow> bool" where
  "less_eq_num (Fin a) (Fin b) = (a \<le> b)"
| "less_eq_num _ _ = False"

instance ..

end

fun num_log :: "num \<Rightarrow> num" where
  "num_log (Fin a) = (if 0 < a then Fin (ln a) else NaN)"
| "num_log NaN = NaN"

fun num_log10 :: "num \<Rightarrow> num" where
  "num_log10 (Fin a) = (if 0 < a then Fin (log 10 a) else NaN)"
| "num_log10 NaN = NaN"

fun num_exp :: "num \<Rightarrow> num" where
  "num_exp (Fin a) = Fin (exp a)"
| "num_exp NaN = NaN"

fun num_isfinite :: "num \<Rightarrow> bool" where
  "num_isfinite (Fin a) = True"
| "num_isfinite NaN = False"

fun num_ne :: "num \<Rightarrow> num \<Rightarrow> bool" where
  "num_ne (Fin a) (Fin b) = (a \<noteq> b)"
| "num_ne _ _ = True"

text \<open>
  Collaborators for running the definitions. A \<^verbatim>\<open>Rate1\<close> evaluator is the list of its
  reactions, each with a coefficient \<open>a\<close>, and the rate constant is \<open>a * T\<close>. The falloff
  function is that of Lindemann. A third-body calculator is the list of its reactions,
  each with the entry of the work vector it owns, and the collider concentration is the
  molar density. A \<^verbatim>\<open>MultiBulkRate\<close>
  evaluator is the temperature it has last seen and owns no reaction. Every reaction
  consumes, and every reverse reaction produces, the one species of the phase. The
  standard Gibbs energy change of reaction \<open>i\<close> is the chemical potential at position \<open>i\<close>.
\<close>

text \<open>The constants \<^verbatim>\<open>BigNumber\<close> and \<^verbatim>\<open>SmallNumber\<close> of \<^verbatim>\<open>ct_defs.h\<close>.\<close>

definition Big :: real where
  "Big = 10 ^ 300"

definition Small :: real where
  "Small = 1 / 10 ^ 300"

type_synonym kin0 =
  "(num, num, (nat \<times> num) list, unit, (nat \<times> nat) list, num, unit) GasKinetics"

definition E0 ::
  "(num, num, (nat \<times> num) list, unit, (nat \<times> nat) list, num, unit, unit) Env" where
  "E0 = \<lparr>
    c_log = num_log,
    c_log10 = num_log10,
    c_exp = num_exp,
    c_isfinite = num_isfinite,
    c_ne = num_ne,
    BigNumber = Fin Big,
    SmallNumber = Fin Small,
    lit_0_13579 = Fin (13579 / 100000),
    lit_1e_6 = Fin (1 / 10 ^ 6),
    BulkKinetics_offset = Fin (13579 / 100000),
    Rate1_nReactions = length,
    Rate1_update = (\<lambda>r T logT v. fold (\<lambda>(i, a) w. w[i := a * T]) r v),
    Rate1_update_C = (\<lambda>r x. r),
    Rate1_install = (\<lambda>r i k. r @ [(i, k)]),
    Rate1_replace = (\<lambda>r i k. map (\<lambda>(j, a). if j = i then (j, k) else (j, a)) r),
    FalloffMgr_updateTemp = (\<lambda>f T w. w),
    FalloffMgr_pr_to_falloff = (\<lambda>f pr w. map (\<lambda>p. p / (1 + p)) pr),
    FalloffMgr_install = (\<lambda>f i t k. f),
    FalloffMgr_replace = (\<lambda>f i k. f),
    FalloffMgr_workSize = (\<lambda>f. 0),
    ThirdBodyCalc_update = (\<lambda>t conc ctot w. fold (\<lambda>(p, i) v. v[p := ctot]) t w),
    ThirdBodyCalc_copy = (\<lambda>t work concm. fold (\<lambda>(p, i) v. v[i := work ! p]) t concm),
    ThirdBodyCalc_multiply = (\<lambda>t out work. fold (\<lambda>(p, i) v. v[i := v ! i * work ! p]) t out),
    ThirdBodyCalc_install =
      (\<lambda>t p eff d j. t @ [(p, case j of None \<Rightarrow> p | Some i \<Rightarrow> i)]),
    ThirdBodyCalc_workSize = length,
    ThirdBodyCalc_scaleOrder = (\<lambda>t rop v. v),
    ThirdBodyCalc_jacobian = (\<lambda>t rop. ()),
    MultiRate_update = (\<lambda>b s. (num_ne (temperature (thermo s)) b, temperature (thermo s))),
    MultiRate_getRateConstants = (\<lambda>b v. v),
    MultiRate_add = (\<lambda>bs i r. bs),
    MultiRate_replace = (\<lambda>bs i r. bs),
    MultiRate_processRateConstants_ddT = (\<lambda>b rop kf dT. rop),
    MultiRate_processRateConstants_ddM = (\<lambda>b rop kf dT. rop),
    Stoich_multiply = (\<lambda>st conc rop. map (\<lambda>x. x * conc ! 0) rop),
    Stoich_scale = (\<lambda>st rop v. v),
    Stoich_jacobian = (\<lambda>st conc rop. ()),
    mat_add = (\<lambda>a b. ()),
    mat_sub = (\<lambda>a b. ()),
    getRevReactionDelta = (\<lambda>s prop delta. fold (\<lambda>i d. d[i := prop ! i]) (m_revindex s) delta),
    getReactionDelta = (\<lambda>s prop delta. fold (\<lambda>i d. d[i := prop ! i]) [0..<nReactions s] delta),
    kineticsSpeciesIndex = (\<lambda>s name. None),
    setState_TP = (\<lambda>th T P. th\<lparr>temperature := T, pressure := P\<rparr>),
    Kinetics_accepts = (\<lambda>s r. True)
  \<rparr>"

text \<open>A phase at 300 K and 101325 Pa, in units that make \<open>RT = 2\<close>.\<close>

definition Th0 :: "num ThermoPhase" where
  "Th0 = \<lparr>
    phase_type = ''IdealGas'',
    temperature = Fin 300,
    pressure = Fin 101325,
    RT = Fin 2,
    molarDensity = Fin 5,
    standardConcentration = Fin 1,
    standardChemPotentials = [Fin 0, Fin 4],
    activityConcentrations = [Fin 3],
    concentrations = [Fin 3]
  \<rparr>"

definition R0 :: "(num, num) Reaction" where
  "R0 = \<lparr>rtype = ''elementary-legacy'', usesLegacy = True, reversible = True, delta_n = Fin 0,
         rate = Fin 2, high_rate = Fin 0, low_rate = Fin 0, falloff = Fin 0,
         efficiencies = [], default_efficiency = Fin 1\<rparr>"

text \<open>
  A manager of two elementary reactions of the legacy path, the first reversible and the
  second not, that has not evaluated anything yet.
\<close>

definition K0 :: kin0 where
  "K0 = \<lparr>
    thermo = Th0,
    m_reactions = [R0, R0\<lparr>reversible := False, rate := Fin 3\<rparr>],
    m_temp = Fin 0,
    m_pres = Fin 0,
    m_logStandConc = Fin 0,
    m_ROP_ok = False,
    m_rfn = [Fin 0, Fin 0],
    m_rkcn = [Fin 0, Fin 0],
    m_ropf = [Fin 0, Fin 0],
    m_ropr = [Fin 0, Fin 0],
    m_ropnet = [Fin 0, Fin 0],
    m_perturb = [Fin 1, Fin 1],
    m_dn = [Fin 0, Fin 0],
    m_grt = [Fin 0, Fin 0],
    m_act_conc = [Fin 0],
    m_phys_conc = [Fin 0],
    m_concm = [NaN, NaN],
    m_rbuf0 = [Fin 0, Fin 0],
    m_rbuf1 = [Fin 0, Fin 0],
    m_rbuf2 = [Fin 0, Fin 0],
    m_revindex = [0],
    m_irrev = [1],
    m_legacy = [0, 1],
    m_fallindx = [],
    m_rfallindx = Map.empty,
    m_rfn_low = [],
    m_rfn_high = [],
    falloff_work = [],
    concm_3b_values = [],
    concm_falloff_values = [],
    m_rates = [(0, Fin 2), (1, Fin 3)],
    m_falloff_low_rates = [],
    m_falloff_high_rates = [],
    m_plog_rates = [],
    m_cheb_rates = [],
    m_falloffn = (),
    m_3b_concm = [],
    m_falloff_concm = [],
    m_multi_concm = [],
    m_bulk_rates = [],
    m_reactantStoich = (),
    m_revProductStoich = (),
    m_jac_const_pressure = True,
    m_jac_mole_fractions = True,
    m_jac_skip_third_bodies = False,
    m_jac_skip_falloff = True,
    m_jac_rtol_deltaT = Fin (1 / 10 ^ 6),
    m_jac_atol_deltaT = Fin (1 / 10 ^ 6)
  \<rparr>"

text \<open>The error of \<^verbatim>\<open>checkLegacyRates\<close> for the procedure \<open>name\<close>.\<close>

abbreviation not_supported :: "string \<Rightarrow> error" where
  "not_supported name \<equiv>
    CanteraError name ''Not supported for legacy (CTI/XML) input format.'' []"

text \<open>The state that \<^verbatim>\<open>updateROP\<close> leaves when it starts from \<open>K0\<close>.\<close>

definition K0_done :: kin0 where
  "K0_done = K0\<lparr>
    m_act_conc := [Fin 3],
    m_phys_conc := [Fin 3],
    m_rfn := [Fin 600, Fin 900],
    m_grt := [Fin 0, Fin 4],
    m_rkcn := [Fin 1, Fin 0],
    m_temp := Fin 300,
    m_pres := Fin 101325,
    m_ropf := [Fin 1800, Fin 2700],
    m_ropr := [Fin 1800, Fin 0],
    m_ropnet := [Fin 0, Fin 2700],
    m_ROP_ok := True\<rparr>"

text \<open>Settings that ask for the falloff term.\<close>

definition settings0 :: "num AnyMap" where
  "settings0 = \<lparr>keys = [''skip-falloff''], asBool = (\<lambda>k. False), asDouble = (\<lambda>k. 0)\<rparr>"

text \<open>
  A manager of an elementary reaction and a falloff reaction, which is reaction 1 and
  the falloff reaction 0, as the evaluation at the state of \<open>Th0\<close> leaves its caches.
\<close>

definition K1 :: kin0 where
  "K1 = K0\<lparr>
    m_reactions := [R0, R0\<lparr>rtype := ''falloff-legacy'', reversible := False,
                          high_rate := Fin 4, low_rate := Fin 2\<rparr>],
    m_temp := Fin 300,
    m_pres := Fin 101325,
    m_rfn := [Fin 600, Fin 0],
    m_rkcn := [Fin 1, Fin 0],
    m_grt := [Fin 0, Fin 4],
    m_act_conc := [Fin 3],
    m_phys_conc := [Fin 3],
    m_concm := [NaN, Fin 5],
    m_rates := [(0, Fin 2)],
    m_fallindx := [1],
    m_rfallindx := [1 \<mapsto> 0],
    m_rfn_low := [Fin 600],
    m_rfn_high := [Fin 1200],
    concm_falloff_values := [Fin 5],
    m_falloff_low_rates := [(0, Fin 2)],
    m_falloff_high_rates := [(0, Fin 4)],
    m_falloff_concm := [(0, 1)]\<rparr>"

text \<open>The same manager when the phase reports a temperature that is not a number.\<close>

definition K1_nan :: kin0 where
  "K1_nan = K1\<lparr>thermo := Th0\<lparr>temperature := NaN\<rparr>\<rparr>"

text \<open>The reduced pressure and the blending factor of the falloff reaction of \<open>K1\<close>.\<close>

definition P1 :: num where
  "P1 = Fin 5 * Fin 600 / (Fin 1200 + Fin Small)"

definition B1 :: num where
  "B1 = P1 / (1 + P1)"

text \<open>The state that \<^verbatim>\<open>updateROP\<close> leaves when it starts from \<open>K1\<close>.\<close>

definition K1_done :: kin0 where
  "K1_done = K1\<lparr>
    m_ropf := [Fin 1800, B1 * Fin 1200 * Fin 3],
    m_ropr := [Fin 1800, Fin 0],
    m_ropnet := [Fin 0, B1 * Fin 1200 * Fin 3],
    m_ROP_ok := True\<rparr>"

text \<open>The cache of \<open>K0\<close> marked as evaluated at 300 K, at another pressure.\<close>

definition K0_p :: kin0 where
  "K0_p = K0\<lparr>m_temp := Fin 300\<rparr>"

text \<open>
  The manager that \<^verbatim>\<open>updateROP\<close> has left, with one \<^verbatim>\<open>MultiBulkRate\<close> evaluator that
  has seen the temperature of the phase.
\<close>

definition K0_b :: kin0 where
  "K0_b = K0_done\<lparr>m_bulk_rates := [Fin 300]\<rparr>"

text \<open>The manager that \<^verbatim>\<open>updateROP\<close> has left, after the rate of reaction 0 is replaced.\<close>

definition K0_mod :: kin0 where
  "K0_mod = K0_done\<lparr>
    m_reactions := [R0\<lparr>rate := Fin 5\<rparr>, R0\<lparr>reversible := False, rate := Fin 3\<rparr>],
    m_temp := Fin 300 + Fin (13579 / 100000),
    m_pres := Fin 101325 + Fin (13579 / 100000),
    m_rates := [(0, Fin 5), (1, Fin 3)]\<rparr>"

text \<open>The state that \<^verbatim>\<open>getEquilibriumConstants\<close> leaves when it starts from \<open>K0\<close>.\<close>

definition K0_kc :: kin0 where
  "K0_kc = K0\<lparr>
    m_rfn := [Fin 600, Fin 900],
    m_grt := [Fin 0, Fin 4],
    m_rkcn := [Fin 0, Fin 4],
    m_pres := Fin 101325,
    m_temp := Fin 0\<rparr>"

text \<open>
  The cache of \<open>K0\<close> marked as evaluated at 300 K, at another pressure, when reaction 0 is
  a Chebyshev reaction and reaction 1 a P-log reaction.
\<close>

definition K0_pc :: kin0 where
  "K0_pc = K0\<lparr>m_temp := Fin 300, m_rates := [], m_plog_rates := [(1, Fin 7)],
              m_cheb_rates := [(0, Fin 11)]\<rparr>"

text \<open>The manager \<open>K1\<close> before its first evaluation.\<close>

definition K1_cold :: kin0 where
  "K1_cold = K1\<lparr>m_temp := Fin 0, m_rfn := [Fin 0, Fin 0], m_rkcn := [Fin 0, Fin 0],
                m_rfn_low := [Fin 0], m_rfn_high := [Fin 0]\<rparr>"

text \<open>
  Collaborators as in \<open>E0\<close>, except that a \<^verbatim>\<open>MultiBulkRate\<close> evaluator owns reaction 0,
  with the temperature it has last seen as rate constant.
\<close>

definition E0_b ::
  "(num, num, (nat \<times> num) list, unit, (nat \<times> nat) list, num, unit, unit) Env" where
  "E0_b = E0\<lparr>MultiRate_getRateConstants := (\<lambda>b v. v[0 := b])\<rparr>"

text \<open>
  The manager that \<^verbatim>\<open>updateROP\<close> has left, with one \<^verbatim>\<open>MultiBulkRate\<close> evaluator that
  has not seen the temperature of the phase.
\<close>

definition K0_s :: kin0 where
  "K0_s = K0_done\<lparr>m_bulk_rates := [Fin 0]\<rparr>"

text \<open>
  Numbers that round as binary64 does between \<open>2\<^sup>6\<^sup>0\<close> and \<open>2\<^sup>6\<^sup>1\<close>, where the doubles are
  the multiples of 256: a result in that range is rounded to the nearest multiple.
  Elsewhere the operations are exact, and the values that are not finite are left out.
\<close>

definition rnd :: "real \<Rightarrow> real" where
  "rnd x = (if 1152921504606846976 \<le> \<bar>x\<bar> \<and> \<bar>x\<bar> < 2305843009213693952
            then 256 * of_int (round (x / 256)) else x)"

datatype dbl = Dbl real

instantiation dbl :: "{zero,one,plus,minus,uminus,times,inverse,ord}"
begin

definition zero_dbl :: dbl where "zero_dbl = Dbl 0"

definition one_dbl :: dbl where "one_dbl = Dbl 1"

fun plus_dbl :: "dbl \<Rightarrow> dbl \<Rightarrow> dbl" where
  "plus_dbl (Dbl a) (Dbl b) = Dbl (rnd (a + b))"

fun minus_dbl :: "dbl \<Rightarrow> dbl \<Rightarrow> dbl" where
  "minus_dbl (Dbl a) (Dbl b) = Dbl (rnd (a - b))"

fun uminus_dbl :: "dbl \<Rightarrow> dbl" where
  "uminus_dbl (Dbl a) = Dbl (- a)"

fun times_dbl :: "dbl \<Rightarrow> dbl \<Rightarrow> dbl" where
  "times_dbl (Dbl a) (Dbl b) = Dbl (rnd (a * b))"

fun divide_dbl :: "dbl \<Rightarrow> dbl \<Rightarrow> dbl" where
  "divide_dbl (Dbl a) (Dbl b) = Dbl (rnd (a / b))"

fun inverse_dbl :: "dbl \<Rightarrow> dbl" where
  "inverse_dbl (Dbl a) = Dbl (rnd (1 / a))"

fun less_dbl :: "dbl \<Rightarrow> dbl \<Rightarrow> bool" where
  "less_dbl (Dbl a) (Dbl b) = (a < b)"

fun less_eq_dbl :: "dbl \<Rightarrow> dbl \<Rightarrow> bool" where
  "less_eq_dbl (Dbl a) (Dbl b) = (a \<le> b)"

instance ..

end







section \<open>Properties\<close>

subsection \<open>Loops that write one entry per index\<close>

lemma length_fold_upd [simp]:
  "length (fold (\<lambda>k w. w[k := g k w]) ks v) = length v"
  by (induction ks arbitrary: v) simp_all

lemma fold_upd_notin:
  "i \<notin> set ks \<Longrightarrow> fold (\<lambda>k w. w[k := g k w]) ks v ! i = v ! i"
  by (induction ks arbitrary: v) auto

lemma fold_upd_self_in:
  "distinct ks \<Longrightarrow> i \<in> set ks \<Longrightarrow> i < length v \<Longrightarrow>
   fold (\<lambda>k w. w[k := h k (w ! k)]) ks v ! i = h i (v ! i)"
proof (induction ks arbitrary: v)
  case Nil
  then show ?case by simp
next
  case (Cons k ks)
  show ?case
  proof (cases "i = k")
    case True
    with Cons.prems have "i \<notin> set ks" by simp
    then have "fold (\<lambda>k w. w[k := h k (w ! k)]) ks (v[k := h k (v ! k)]) ! i
               = (v[k := h k (v ! k)]) ! i"
      by (rule fold_upd_notin)
    with True Cons.prems show ?thesis by simp
  next
    case False
    with Cons.prems have "i \<in> set ks" "distinct ks" by auto
    with Cons.IH [of "v[k := h k (v ! k)]"] Cons.prems False show ?thesis by simp
  qed
qed

lemma fold_upd_const_in:
  "i \<in> set ks \<Longrightarrow> i < length v \<Longrightarrow> fold (\<lambda>k w. w[k := c]) ks v ! i = c"
proof (induction ks arbitrary: v)
  case Nil
  then show ?case by simp
next
  case (Cons k ks)
  show ?case
  proof (cases "i \<in> set ks")
    case True
    with Cons show ?thesis by simp
  next
    case False
    with Cons.prems have "i = k" by simp
    with False Cons.prems show ?thesis by (simp add: fold_upd_notin)
  qed
qed

lemma length_for_upto [simp]: "length (for_upto n f v) = length v"
  by (simp add: for_upto_def)

lemma for_upto_const_nth:
  "j < n \<Longrightarrow> j < length v \<Longrightarrow> for_upto n (\<lambda>i w. g i) v ! j = g j"
  unfolding for_upto_def
  using fold_upd_self_in [of "[0..<n]" j v "\<lambda>k x. g k"] by simp

subsection \<open>Running the instance\<close>

lemma E0_simps [simp]:
  "c_log E0 = num_log"
  "c_log10 E0 = num_log10"
  "c_exp E0 = num_exp"
  "c_isfinite E0 = num_isfinite"
  "c_ne E0 = num_ne"
  "BigNumber E0 = Fin Big"
  "SmallNumber E0 = Fin Small"
  "lit_0_13579 E0 = (Fin (13579 / 100000))"
  "lit_1e_6 E0 = (Fin (1 / 10 ^ 6))"
  "BulkKinetics_offset E0 = (Fin (13579 / 100000))"
  "Rate1_nReactions E0 = length"
  "Rate1_update E0 = (\<lambda>r T logT v. fold (\<lambda>(i, a) w. w[i := a * T]) r v)"
  "Rate1_update_C E0 = (\<lambda>r x. r)"
  "Rate1_install E0 = (\<lambda>r i k. r @ [(i, k)])"
  "Rate1_replace E0 = (\<lambda>r i k. map (\<lambda>(j, a). if j = i then (j, k) else (j, a)) r)"
  "FalloffMgr_updateTemp E0 = (\<lambda>f T w. w)"
  "FalloffMgr_pr_to_falloff E0 = (\<lambda>f pr w. map (\<lambda>p. p / (1 + p)) pr)"
  "FalloffMgr_install E0 = (\<lambda>f i t k. f)"
  "FalloffMgr_replace E0 = (\<lambda>f i k. f)"
  "FalloffMgr_workSize E0 = (\<lambda>f. 0)"
  "ThirdBodyCalc_update E0 = (\<lambda>t conc ctot w. fold (\<lambda>(p, i) v. v[p := ctot]) t w)"
  "ThirdBodyCalc_copy E0 = (\<lambda>t work concm. fold (\<lambda>(p, i) v. v[i := work ! p]) t concm)"
  "ThirdBodyCalc_multiply E0 =
     (\<lambda>t out work. fold (\<lambda>(p, i) v. v[i := v ! i * work ! p]) t out)"
  "ThirdBodyCalc_install E0 =
     (\<lambda>t p eff d j. t @ [(p, case j of None \<Rightarrow> p | Some i \<Rightarrow> i)])"
  "ThirdBodyCalc_workSize E0 = length"
  "ThirdBodyCalc_scaleOrder E0 = (\<lambda>t rop v. v)"
  "ThirdBodyCalc_jacobian E0 = (\<lambda>t rop. ())"
  "MultiRate_update E0 = (\<lambda>b s. (num_ne (temperature (thermo s)) b, temperature (thermo s)))"
  "MultiRate_getRateConstants E0 = (\<lambda>b v. v)"
  "MultiRate_add E0 = (\<lambda>bs i r. bs)"
  "MultiRate_replace E0 = (\<lambda>bs i r. bs)"
  "MultiRate_processRateConstants_ddT E0 = (\<lambda>b rop kf dT. rop)"
  "MultiRate_processRateConstants_ddM E0 = (\<lambda>b rop kf dT. rop)"
  "Stoich_multiply E0 = (\<lambda>st conc rop. map (\<lambda>x. x * conc ! 0) rop)"
  "Stoich_scale E0 = (\<lambda>st rop v. v)"
  "Stoich_jacobian E0 = (\<lambda>st conc rop. ())"
  "mat_add E0 = (\<lambda>a b. ())"
  "mat_sub E0 = (\<lambda>a b. ())"
  "getRevReactionDelta E0 = (\<lambda>s prop delta. fold (\<lambda>i d. d[i := prop ! i]) (m_revindex s) delta)"
  "getReactionDelta E0 = (\<lambda>s prop delta. fold (\<lambda>i d. d[i := prop ! i]) [0..<nReactions s] delta)"
  "kineticsSpeciesIndex E0 = (\<lambda>s name. None)"
  "setState_TP E0 = (\<lambda>th T P. th\<lparr>temperature := T, pressure := P\<rparr>)"
  "Kinetics_accepts E0 = (\<lambda>s r. True)"
  by (simp_all add: E0_def)

lemma Th0_simps [simp]:
  "phase_type Th0 = ''IdealGas''"
  "temperature Th0 = (Fin 300)"
  "pressure Th0 = (Fin 101325)"
  "RT Th0 = (Fin 2)"
  "molarDensity Th0 = (Fin 5)"
  "standardConcentration Th0 = (Fin 1)"
  "standardChemPotentials Th0 = [Fin 0, Fin 4]"
  "activityConcentrations Th0 = [Fin 3]"
  "concentrations Th0 = [Fin 3]"
  by (simp_all add: Th0_def)

lemma K0_simps [simp]:
  "thermo K0 = Th0"
  "m_reactions K0 = [R0, R0\<lparr>reversible := False, rate := Fin 3\<rparr>]"
  "m_temp K0 = (Fin 0)"
  "m_pres K0 = (Fin 0)"
  "m_logStandConc K0 = (Fin 0)"
  "m_ROP_ok K0 = False"
  "m_rfn K0 = [Fin 0, Fin 0]"
  "m_rkcn K0 = [Fin 0, Fin 0]"
  "m_ropf K0 = [Fin 0, Fin 0]"
  "m_ropr K0 = [Fin 0, Fin 0]"
  "m_ropnet K0 = [Fin 0, Fin 0]"
  "m_perturb K0 = [Fin 1, Fin 1]"
  "m_dn K0 = [Fin 0, Fin 0]"
  "m_grt K0 = [Fin 0, Fin 0]"
  "m_act_conc K0 = [Fin 0]"
  "m_phys_conc K0 = [Fin 0]"
  "m_concm K0 = [NaN, NaN]"
  "m_rbuf0 K0 = [Fin 0, Fin 0]"
  "m_rbuf1 K0 = [Fin 0, Fin 0]"
  "m_rbuf2 K0 = [Fin 0, Fin 0]"
  "m_revindex K0 = [0]"
  "m_irrev K0 = [1]"
  "m_legacy K0 = [0, 1]"
  "m_fallindx K0 = []"
  "m_rfallindx K0 = Map.empty"
  "m_rfn_low K0 = []"
  "m_rfn_high K0 = []"
  "falloff_work K0 = []"
  "concm_3b_values K0 = []"
  "concm_falloff_values K0 = []"
  "m_rates K0 = [(0, Fin 2), (1, Fin 3)]"
  "m_falloff_low_rates K0 = []"
  "m_falloff_high_rates K0 = []"
  "m_plog_rates K0 = []"
  "m_cheb_rates K0 = []"
  "m_falloffn K0 = ()"
  "m_3b_concm K0 = []"
  "m_falloff_concm K0 = []"
  "m_multi_concm K0 = []"
  "m_bulk_rates K0 = []"
  "m_reactantStoich K0 = ()"
  "m_revProductStoich K0 = ()"
  "m_jac_const_pressure K0 = True"
  "m_jac_mole_fractions K0 = True"
  "m_jac_skip_third_bodies K0 = False"
  "m_jac_skip_falloff K0 = True"
  "m_jac_rtol_deltaT K0 = (Fin (1 / 10 ^ 6))"
  "m_jac_atol_deltaT K0 = (Fin (1 / 10 ^ 6))"
  by (simp_all add: K0_def)

lemma Big_gt: "1 < Big"
  unfolding Big_def by (rule one_less_power) simp_all

lemma Big_not_less [simp]: "\<not> Big < 1"
  using Big_gt by simp

lemmas eval_defs = updateROP_def processFwdRateCoefficients_def update_rates_C_def
  update_rates_T_def update_T_block_def update_bulk_rates_def update_bulk_rate_def
  update_P_block_def updateKc_def assemble_ROP_def processThirdBodies_def
  processEquilibriumConstants_def processFalloffReactions_def falloff_scale_def
  reduced_pressure_def for_upto_def std_copy_def std_fill_def std_min_def AssertFinite_def
  nReactions_def reactionTypeStr_def zero_num_def one_num_def

lemma K1_simps [simp]:
  "thermo K1 = Th0"
  "m_reactions K1 =
     [R0, R0\<lparr>rtype := ''falloff-legacy'', reversible := False,
                high_rate := Fin 4, low_rate := Fin 2\<rparr>]"
  "m_temp K1 = (Fin 300)"
  "m_pres K1 = (Fin 101325)"
  "m_logStandConc K1 = (Fin 0)"
  "m_ROP_ok K1 = False"
  "m_rfn K1 = [Fin 600, Fin 0]"
  "m_rkcn K1 = [Fin 1, Fin 0]"
  "m_ropf K1 = [Fin 0, Fin 0]"
  "m_ropr K1 = [Fin 0, Fin 0]"
  "m_ropnet K1 = [Fin 0, Fin 0]"
  "m_perturb K1 = [Fin 1, Fin 1]"
  "m_dn K1 = [Fin 0, Fin 0]"
  "m_grt K1 = [Fin 0, Fin 4]"
  "m_act_conc K1 = [Fin 3]"
  "m_phys_conc K1 = [Fin 3]"
  "m_concm K1 = [NaN, Fin 5]"
  "m_rbuf0 K1 = [Fin 0, Fin 0]"
  "m_rbuf1 K1 = [Fin 0, Fin 0]"
  "m_rbuf2 K1 = [Fin 0, Fin 0]"
  "m_revindex K1 = [0]"
  "m_irrev K1 = [1]"
  "m_legacy K1 = [0, 1]"
  "m_fallindx K1 = [1]"
  "m_rfallindx K1 = [1 \<mapsto> 0]"
  "m_rfn_low K1 = [Fin 600]"
  "m_rfn_high K1 = [Fin 1200]"
  "falloff_work K1 = []"
  "concm_3b_values K1 = []"
  "concm_falloff_values K1 = [Fin 5]"
  "m_rates K1 = [(0, Fin 2)]"
  "m_falloff_low_rates K1 = [(0, Fin 2)]"
  "m_falloff_high_rates K1 = [(0, Fin 4)]"
  "m_plog_rates K1 = []"
  "m_cheb_rates K1 = []"
  "m_falloffn K1 = ()"
  "m_3b_concm K1 = []"
  "m_falloff_concm K1 = [(0, 1)]"
  "m_multi_concm K1 = []"
  "m_bulk_rates K1 = []"
  "m_reactantStoich K1 = ()"
  "m_revProductStoich K1 = ()"
  "m_jac_const_pressure K1 = True"
  "m_jac_mole_fractions K1 = True"
  "m_jac_skip_third_bodies K1 = False"
  "m_jac_skip_falloff K1 = True"
  "m_jac_rtol_deltaT K1 = (Fin (1 / 10 ^ 6))"
  "m_jac_atol_deltaT K1 = (Fin (1 / 10 ^ 6))"
  by (simp_all add: K1_def)

lemma updateROP_K0: "updateROP E0 K0 = Inr K0_done"
  by (simp add: K0_done_def eval_defs Let_def cong: let_weak_cong)

subsection \<open>The reverse-rate multipliers\<close>

lemma length_updateKc:
  "length (getRevReactionDelta E
            (s\<lparr>m_grt := standardChemPotentials (thermo s),
               m_rkcn := std_fill (m_rkcn s) 0\<rparr>)
            (standardChemPotentials (thermo s)) (std_fill (m_rkcn s) 0)) = n \<Longrightarrow>
   length (m_rkcn (updateKc E s)) = n"
  by (simp add: updateKc_def Let_def)

text \<open>
  C1. After \<^verbatim>\<open>updateKc\<close> the multiplier of a reversible reaction \<open>i\<close> is
  \<open>exp (\<Delta>G\<^sub>i * (1 / RT) - \<Delta>n\<^sub>i * ln C0)\<close> clamped above by \<^verbatim>\<open>BigNumber\<close> through
  \<^verbatim>\<open>std::min\<close>, and the multiplier of an irreversible reaction is \<open>0\<close>, whatever the
  thermodynamic state. \<open>m_logStandConc\<close> is the cached \<open>ln C0\<close>; the reaction index lists
  are as \<^verbatim>\<open>addReaction\<close> builds them: every reaction in one list, once.
\<close>

theorem updateKc_reverse_multiplier:
  assumes "distinct (m_revindex s)"
    and "i < length (deltaG0_rev E s)"
  shows "(i \<in> set (m_revindex s) \<and> i \<notin> set (m_irrev s) \<longrightarrow>
            m_rkcn (updateKc E s) ! i =
              std_min (c_exp E (deltaG0_rev E s ! i * (1 / RT (thermo s))
                                 - m_dn s ! i * m_logStandConc s))
                      (BigNumber E)) \<and>
         (i \<in> set (m_irrev s) \<longrightarrow> m_rkcn (updateKc E s) ! i = 0)"
proof (intro conjI impI)
  assume "i \<in> set (m_revindex s) \<and> i \<notin> set (m_irrev s)"
  then have rev: "i \<in> set (m_revindex s)" and irr: "i \<notin> set (m_irrev s)" by simp_all
  let ?h = "\<lambda>(k::nat) x. std_min (c_exp E (x * (1 / RT (thermo s))
                                   - m_dn s ! k * m_logStandConc s)) (BigNumber E)"
  have "m_rkcn (updateKc E s) ! i =
        fold (\<lambda>k w. w[k := ?h k (w ! k)]) (m_revindex s) (deltaG0_rev E s) ! i"
    using irr by (simp add: updateKc_def deltaG0_rev_def Let_def fold_upd_notin)
  also have "\<dots> = ?h i (deltaG0_rev E s ! i)"
    using assms rev by (rule_tac fold_upd_self_in) simp_all
  finally show "m_rkcn (updateKc E s) ! i =
      std_min (c_exp E (deltaG0_rev E s ! i * (1 / RT (thermo s))
                         - m_dn s ! i * m_logStandConc s)) (BigNumber E)" .
next
  assume irr: "i \<in> set (m_irrev s)"
  from assms(2) show "m_rkcn (updateKc E s) ! i = 0"
    using irr by (simp add: updateKc_def deltaG0_rev_def Let_def fold_upd_const_in)
qed

theorem updateKc_reverse_multiplier_witness:
  "distinct (m_revindex K0) \<and> 0 < length (deltaG0_rev E0 K0) \<and> 1 < length (deltaG0_rev E0 K0) \<and>
   0 \<in> set (m_revindex K0) \<and> 0 \<notin> set (m_irrev K0) \<and> 1 \<in> set (m_irrev K0) \<and>
   m_rkcn (updateKc E0 K0) ! 0 = Fin 1 \<and> m_rkcn (updateKc E0 K0) ! 1 = 0"
proof -
  have len: "length (deltaG0_rev E0 K0) = 2"
    by (simp add: deltaG0_rev_def E0_def K0_def Th0_def std_fill_def)
  have g: "deltaG0_rev E0 K0 ! 0 = Fin 0"
    by (simp add: deltaG0_rev_def E0_def K0_def Th0_def std_fill_def)
  have pre: "distinct (m_revindex K0)" "0 \<in> set (m_revindex K0)" "0 \<notin> set (m_irrev K0)"
    "1 \<in> set (m_irrev K0)"
    by (simp_all add: K0_def)
  have "1 < Big" by (simp add: Big_def)
  then have v: "std_min (c_exp E0 (Fin 0 * (1 / RT (thermo K0)) - m_dn K0 ! 0 * m_logStandConc K0))
             (BigNumber E0) = Fin 1"
    by (simp add: E0_def K0_def Th0_def std_min_def one_num_def)
  from updateKc_reverse_multiplier [of K0 0 E0] updateKc_reverse_multiplier [of K0 1 E0]
    len g pre v
  show ?thesis by simp
qed

subsection \<open>Net rates of progress\<close>

lemma assemble_ROP_net:
  "j < nReactions s \<Longrightarrow> j < length (m_ropnet s) \<Longrightarrow>
   m_ropnet (assemble_ROP E s) ! j = m_ropf (assemble_ROP E s) ! j - m_ropr (assemble_ROP E s) ! j"
  by (simp add: assemble_ROP_def Let_def for_upto_const_nth nReactions_def)

lemma assemble_ROP_same_conc:
  "\<exists>kf kr. m_ropf (assemble_ROP E s) =
             Stoich_multiply E (m_reactantStoich (assemble_ROP E s))
               (m_act_conc (assemble_ROP E s)) kf \<and>
           m_ropr (assemble_ROP E s) =
             Stoich_multiply E (m_revProductStoich (assemble_ROP E s))
               (m_act_conc (assemble_ROP E s)) kr"
  by (simp add: assemble_ROP_def Let_def) blast

lemma assemble_ROP_frame [simp]:
  "nReactions (assemble_ROP E s) = nReactions s"
  "m_reactions (assemble_ROP E s) = m_reactions s"
  "length (m_ropnet (assemble_ROP E s)) = length (m_ropnet s)"
  "m_rfn (assemble_ROP E s) = m_rfn s"
  by (simp_all add: assemble_ROP_def Let_def nReactions_def)

lemma updateROP_Inr:
  assumes "updateROP E s = Inr s'"
  obtains ropf s1 where "processFwdRateCoefficients E (m_ropf s) s = Inr (ropf, s1)"
    and "updateROP_checks E (assemble_ROP E (s1\<lparr>m_ropf := ropf\<rparr>))
           [0..<length (m_rfn s1)] = None"
    and "s' = (assemble_ROP E (s1\<lparr>m_ropf := ropf\<rparr>))\<lparr>m_ROP_ok := True\<rparr>"
  using assms
  by (auto simp: updateROP_def Let_def split: sum.splits option.splits prod.splits)

text \<open>
  C3. When \<^verbatim>\<open>updateROP\<close> returns, the net rate of progress of every reaction \<open>j\<close> is
  the forward rate of progress minus the reverse one, and both were obtained in this
  update from the same vector of activity concentrations \<open>m_act_conc\<close>.
\<close>

theorem updateROP_net:
  assumes "updateROP E s = Inr s'" and "j < nReactions s'" and "j < length (m_ropnet s')"
  shows "m_ropnet s' ! j = m_ropf s' ! j - m_ropr s' ! j \<and>
         (\<exists>kf kr. m_ropf s' = Stoich_multiply E (m_reactantStoich s') (m_act_conc s') kf \<and>
                  m_ropr s' = Stoich_multiply E (m_revProductStoich s') (m_act_conc s') kr)"
proof -
  from assms(1) obtain ropf s1 where
    s': "s' = (assemble_ROP E (s1\<lparr>m_ropf := ropf\<rparr>))\<lparr>m_ROP_ok := True\<rparr>"
    by (rule updateROP_Inr)
  let ?a = "s1\<lparr>m_ropf := ropf\<rparr>"
  from assms(2,3) s' have "j < nReactions ?a" "j < length (m_ropnet ?a)"
    by (simp_all add: nReactions_def)
  then have "m_ropnet (assemble_ROP E ?a) ! j =
             m_ropf (assemble_ROP E ?a) ! j - m_ropr (assemble_ROP E ?a) ! j"
    by (rule assemble_ROP_net)
  moreover note assemble_ROP_same_conc [of E ?a]
  ultimately show ?thesis unfolding s' by simp
qed

theorem updateROP_net_witness:
  "updateROP E0 K0 = Inr K0_done \<and> 1 < nReactions K0_done \<and> 1 < length (m_ropnet K0_done) \<and>
   m_ropf K0_done ! 1 = Fin 2700 \<and> m_ropr K0_done ! 1 = Fin 0 \<and>
   m_ropnet K0_done ! 1 = m_ropf K0_done ! 1 - m_ropr K0_done ! 1"
proof -
  have "1 < nReactions K0_done" "1 < length (m_ropnet K0_done)"
    by (simp_all add: K0_done_def nReactions_def)
  with updateROP_net [of E0 K0 K0_done 1] updateROP_K0
  show ?thesis by (simp add: K0_done_def)
qed

subsection \<open>Jacobian settings\<close>

text \<open>
  C8. The option that skips the falloff term is \<open>True\<close> after construction and after
  every call of \<^verbatim>\<open>setJacobianSettings\<close>; a call whose settings hold \<open>False\<close> under
  the key \<^verbatim>\<open>skip-falloff\<close> throws \<^verbatim>\<open>NotImplementedError\<close>, and the option is \<open>True\<close>
  in the state it leaves.
\<close>

theorem setJacobianSettings_skip_falloff:
  "m_jac_skip_falloff (snd (setJacobianSettings E settings s)) \<and>
   fst (GasKinetics_ctor E s) = None \<and>
   m_jac_skip_falloff (snd (GasKinetics_ctor E s)) \<and>
   (hasKey settings ''skip-falloff'' \<and> \<not> asBool settings ''skip-falloff'' \<longrightarrow>
      fst (setJacobianSettings E settings s) =
        Some (NotImplementedError ''GasKinetics::setJacobianSettings''
          ''Derivative term related to reaction rate dependence on third bodies is not implemented.''))"
  by (auto simp: setJacobianSettings_def GasKinetics_ctor_def Let_def getBool_def hasKey_def
      AnyMap_empty_def)

theorem setJacobianSettings_skip_falloff_witness:
  "hasKey settings0 ''skip-falloff'' \<and> \<not> asBool settings0 ''skip-falloff'' \<and>
   fst (setJacobianSettings E0 settings0 K0) =
     Some (NotImplementedError ''GasKinetics::setJacobianSettings''
       ''Derivative term related to reaction rate dependence on third bodies is not implemented.'') \<and>
   m_jac_skip_falloff (snd (setJacobianSettings E0 settings0 K0))"
  using setJacobianSettings_skip_falloff [of E0 settings0 K0]
  by (simp add: settings0_def hasKey_def)

subsection \<open>Derivatives and the legacy construction path\<close>

lemma addReaction_legacy:
  assumes "usesLegacy r" and "addReaction E r resize s0 = Inr (True, s)"
  shows "m_legacy s \<noteq> []"
  using assms
  by (auto simp: addReaction_def Let_def split: prod.splits if_splits sum.splits)

lemma checkLegacyRates_fails:
  "m_legacy s \<noteq> [] \<Longrightarrow> checkLegacyRates name s = Some (not_supported name)"
  by (simp add: checkLegacyRates_def)

text \<open>
  C9. When the manager holds a reaction installed through the legacy path, that is when
  \<^verbatim>\<open>m_legacy\<close> is not empty, as it is after \<^verbatim>\<open>addReaction\<close> has added a reaction that
  uses the legacy path, each of the seven derivative queries throws the error of
  \<^verbatim>\<open>checkLegacyRates\<close> under its own name and returns no value.
\<close>

theorem legacy_jacobian_queries_fail:
  assumes "m_legacy s \<noteq> [] \<or>
           (\<exists>r resize s0. usesLegacy r \<and> addReaction E r resize s0 = Inr (True, s))"
  shows "fwdRateConstants_ddT E s = Inl (not_supported ''GasKinetics::fwdRateConstants_ddT'') \<and>
         fwdRatesOfProgress_ddT E s = Inl (not_supported ''GasKinetics::fwdRatesOfProgress_ddT'') \<and>
         revRatesOfProgress_ddT E s = Inl (not_supported ''GasKinetics::revRatesOfProgress_ddT'') \<and>
         netRatesOfProgress_ddT E s = Inl (not_supported ''GasKinetics::netRatesOfProgress_ddT'') \<and>
         fwdRatesOfProgress_ddC E s = Inl (not_supported ''GasKinetics::fwdRatesOfProgress_ddC'') \<and>
         revRatesOfProgress_ddC E s = Inl (not_supported ''GasKinetics::revRatesOfProgress_ddC'') \<and>
         netRatesOfProgress_ddC E s = Inl (not_supported ''GasKinetics::netRatesOfProgress_ddC'')"
proof -
  from assms have "m_legacy s \<noteq> []"
    by (auto dest: addReaction_legacy)
  then have "\<And>name. checkLegacyRates name s = Some (not_supported name)"
    by (rule checkLegacyRates_fails)
  then show ?thesis
    by (simp add: fwdRateConstants_ddT_def fwdRatesOfProgress_ddT_def revRatesOfProgress_ddT_def
        netRatesOfProgress_ddT_def fwdRatesOfProgress_ddC_def revRatesOfProgress_ddC_def
        netRatesOfProgress_ddC_def)
qed

theorem legacy_jacobian_queries_fail_witness:
  "m_legacy K0 = [0, 1] \<and>
   fwdRateConstants_ddT E0 K0 = Inl (not_supported ''GasKinetics::fwdRateConstants_ddT'') \<and>
   netRatesOfProgress_ddT E0 K0 = Inl (not_supported ''GasKinetics::netRatesOfProgress_ddT'') \<and>
   netRatesOfProgress_ddC E0 K0 = Inl (not_supported ''GasKinetics::netRatesOfProgress_ddC'')"
proof -
  have "m_legacy K0 \<noteq> [] \<or>
        (\<exists>r resize s0. usesLegacy r \<and> addReaction E0 r resize s0 = Inr (True, K0))"
    by simp
  from legacy_jacobian_queries_fail [OF this] show ?thesis by simp
qed

subsection \<open>Falloff reactions\<close>

lemma Small_pos: "0 < Small"
  unfolding Small_def by (intro divide_pos_pos zero_less_power) simp_all

lemma Small_guard [simp]: "1200 + Small \<noteq> 0" "1 + 3000 / (1200 + Small) \<noteq> 0"
proof -
  from Small_pos show "1200 + Small \<noteq> 0" by simp
  from Small_pos have "0 < 1200 + Small" by simp
  then have "0 < 3000 / (1200 + Small)" by (intro divide_pos_pos) simp_all
  then show "1 + 3000 / (1200 + Small) \<noteq> 0" by linarith
qed


lemma reduced_pressures_length:
  "reduced_pressures E s ks pr = Inr pr' \<Longrightarrow> length pr' = length pr"
  by (induction ks arbitrary: pr) (auto simp: Let_def split: option.splits)

lemma reduced_pressures_notin:
  "reduced_pressures E s ks pr = Inr pr' \<Longrightarrow> i \<notin> set ks \<Longrightarrow> pr' ! i = pr ! i"
  by (induction ks arbitrary: pr) (auto simp: Let_def split: option.splits)

lemma reduced_pressures_nth:
  "reduced_pressures E s ks pr = Inr pr' \<Longrightarrow> distinct ks \<Longrightarrow> i \<in> set ks \<Longrightarrow>
   i < length pr \<Longrightarrow> pr' ! i = reduced_pressure E s i"
proof (induction ks arbitrary: pr)
  case Nil
  then show ?case by simp
next
  case (Cons k ks)
  let ?pr1 = "pr[k := reduced_pressure E s k]"
  from Cons.prems(1) have rest: "reduced_pressures E s ks ?pr1 = Inr pr'"
    by (auto simp: Let_def split: option.splits)
  show ?case
  proof (cases "i = k")
    case True
    with Cons.prems have "i \<notin> set ks" by simp
    with rest have "pr' ! i = ?pr1 ! i" by (rule reduced_pressures_notin)
    with True Cons.prems show ?thesis by simp
  next
    case False
    with Cons.prems have "i \<in> set ks" "distinct ks" "i < length ?pr1" by auto
    with Cons.IH [OF rest] show ?thesis by simp
  qed
qed


lemma falloff_scale_fold_length:
  "length (fst (fold (falloff_scale s) ks (pr, ropf))) = length pr"
  by (induction ks arbitrary: pr ropf) (simp_all add: falloff_scale_def Let_def)

lemma falloff_scale_fold_pr_notin:
  "i \<notin> set ks \<Longrightarrow> fst (fold (falloff_scale s) ks (pr, ropf)) ! i = pr ! i"
  by (induction ks arbitrary: pr ropf) (simp_all add: falloff_scale_def Let_def)

lemma falloff_scale_fold_ropf_notin:
  "\<forall>j \<in> set ks. m_fallindx s ! j \<noteq> t \<Longrightarrow>
   snd (fold (falloff_scale s) ks (pr, ropf)) ! t = ropf ! t"
  by (induction ks arbitrary: pr ropf) (simp_all add: falloff_scale_def Let_def)

lemma falloff_scale_fold_ropf:
  assumes "distinct ks" and "i \<in> set ks" and "i < length pr"
    and "m_fallindx s ! i < length ropf"
    and "\<forall>j \<in> set ks. j \<noteq> i \<longrightarrow> m_fallindx s ! j \<noteq> m_fallindx s ! i"
  shows "snd (fold (falloff_scale s) ks (pr, ropf)) ! (m_fallindx s ! i) =
         pr ! i * (if reactionTypeStr s (m_fallindx s ! i) = ''falloff-legacy''
                   then m_rfn_high s ! i else m_rfn_low s ! i)"
  using assms
proof (induction ks arbitrary: pr ropf)
  case Nil
  then show ?case by simp
next
  case (Cons k ks)
  obtain pr1 ropf1 where step: "falloff_scale s k (pr, ropf) = (pr1, ropf1)"
    by (cases "falloff_scale s k (pr, ropf)")
  have len: "length pr1 = length pr" "length ropf1 = length ropf"
    using step by (auto simp: falloff_scale_def Let_def split: if_splits)
  show ?case
  proof (cases "i = k")
    case True
    with Cons.prems have "\<forall>j \<in> set ks. m_fallindx s ! j \<noteq> m_fallindx s ! i" by auto
    then have "snd (fold (falloff_scale s) ks (pr1, ropf1)) ! (m_fallindx s ! i) =
               ropf1 ! (m_fallindx s ! i)"
      by (rule falloff_scale_fold_ropf_notin)
    moreover have "ropf1 ! (m_fallindx s ! i) =
        pr ! i * (if reactionTypeStr s (m_fallindx s ! i) = ''falloff-legacy''
                  then m_rfn_high s ! i else m_rfn_low s ! i)"
      using step True Cons.prems by (auto simp: falloff_scale_def Let_def split: if_splits)
    ultimately show ?thesis using step by simp
  next
    case False
    with Cons.prems have a: "distinct ks" "i \<in> set ks" "i < length pr1"
      "m_fallindx s ! i < length ropf1"
      "\<forall>j \<in> set ks. j \<noteq> i \<longrightarrow> m_fallindx s ! j \<noteq> m_fallindx s ! i"
      using len by auto
    have "pr1 ! i = pr ! i"
      using step False by (auto simp: falloff_scale_def Let_def split: if_splits)
    with Cons.IH [OF a] step show ?thesis by simp
  qed
qed


text \<open>
  C2. When \<^verbatim>\<open>processFalloffReactions\<close> returns, the reduced pressure it has computed
  for the falloff reaction at position \<open>i\<close> is \<open>[M] * k0 / (kinf + SmallNumber)\<close>, with
  \<open>[M]\<close> from \<^verbatim>\<open>concm_falloff_values\<close>, and the entry of the forward-rate buffer for
  that reaction is the blending of the reduced pressures by \<^verbatim>\<open>pr_to_falloff\<close>, times
  \<open>kinf\<close> for a reaction of type \<^verbatim>\<open>falloff-legacy\<close> and times \<open>k0\<close> otherwise, which
  is the chemically activated reaction. The falloff reactions have distinct reaction
  indices, and \<^verbatim>\<open>pr_to_falloff\<close> works in place.
\<close>

theorem processFalloffReactions_effective:
  assumes run: "processFalloffReactions E ropf s = Inr (ropf', s')"
    and n: "n = Rate1_nReactions E (m_falloff_low_rates s)"
    and i: "i < n"
    and fit: "n \<le> length (m_ropr s)" "n \<le> length (m_fallindx s)"
      "m_fallindx s ! i < length ropf"
    and dist: "distinct (take n (m_fallindx s))"
    and inplace: "\<forall>pr. length (FalloffMgr_pr_to_falloff E (m_falloffn s) pr (falloff_work s))
                    = length pr"
  shows "\<exists>pr. reduced_pressures E s [0..<n] (m_ropr s) = Inr pr \<and>
           pr ! i = concm_falloff_values s ! i * m_rfn_low s ! i
                      / (m_rfn_high s ! i + SmallNumber E) \<and>
           ropf' ! (m_fallindx s ! i) =
             FalloffMgr_pr_to_falloff E (m_falloffn s) pr (falloff_work s) ! i
               * (if reactionTypeStr s (m_fallindx s ! i) = ''falloff-legacy''
                  then m_rfn_high s ! i else m_rfn_low s ! i)"
proof -
  from run n obtain pr where
    pr: "reduced_pressures E s [0..<n] (m_ropr s) = Inr pr"
    and out: "ropf' = snd (fold (falloff_scale s) [0..<n]
                (FalloffMgr_pr_to_falloff E (m_falloffn s) pr (falloff_work s), ropf))"
    by (auto simp: processFalloffReactions_def Let_def split: sum.splits prod.splits)
  have lpr: "length pr = length (m_ropr s)"
    using pr by (rule reduced_pressures_length)
  have ir: "i < length (m_ropr s)" and "i < length (m_fallindx s)"
    using i fit by linarith+
  have "pr ! i = reduced_pressure E s i"
    using pr i ir by (intro reduced_pressures_nth [where ks = "[0..<n]"]) simp_all
  then have v: "pr ! i = concm_falloff_values s ! i * m_rfn_low s ! i
                      / (m_rfn_high s ! i + SmallNumber E)"
    by (simp add: reduced_pressure_def)
  let ?b = "FalloffMgr_pr_to_falloff E (m_falloffn s) pr (falloff_work s)"
  have lb: "i < length ?b" using inplace lpr ir by simp
  have sep: "\<forall>j \<in> set [0..<n]. j \<noteq> i \<longrightarrow> m_fallindx s ! j \<noteq> m_fallindx s ! i"
  proof (intro ballI impI)
    fix j assume j: "j \<in> set [0..<n]" "j \<noteq> i"
    let ?t = "take n (m_fallindx s)"
    from j i fit have lj: "j < length ?t" and li: "i < length ?t" by simp_all
    from dist lj li have "(?t ! j = ?t ! i) = (j = i)"
      by (rule nth_eq_iff_index_eq)
    with j have "?t ! j \<noteq> ?t ! i" by simp
    moreover from j i have "?t ! j = m_fallindx s ! j" "?t ! i = m_fallindx s ! i" by simp_all
    ultimately show "m_fallindx s ! j \<noteq> m_fallindx s ! i" by simp
  qed
  have "ropf' ! (m_fallindx s ! i) =
        ?b ! i * (if reactionTypeStr s (m_fallindx s ! i) = ''falloff-legacy''
                  then m_rfn_high s ! i else m_rfn_low s ! i)"
    unfolding out using i fit lb sep
    by (intro falloff_scale_fold_ropf) simp_all
  with pr v show ?thesis by blast
qed

lemma processFalloffReactions_K1:
  "processFalloffReactions E0 [Fin 600, Fin 0] K1 =
     Inr ([Fin 600, B1 * Fin 1200], K1\<lparr>m_ropr := [B1 * Fin 1200, Fin 0]\<rparr>)"
  by (simp add: B1_def P1_def K1_def eval_defs Let_def cong: let_weak_cong)

theorem processFalloffReactions_effective_witness:
  "processFalloffReactions E0 [Fin 600, Fin 0] K1 =
     Inr ([Fin 600, B1 * Fin 1200], K1\<lparr>m_ropr := [B1 * Fin 1200, Fin 0]\<rparr>) \<and>
   Rate1_nReactions E0 (m_falloff_low_rates K1) = 1 \<and>
   m_fallindx K1 = [1] \<and> reactionTypeStr K1 1 = ''falloff-legacy'' \<and>
   (\<exists>pr. reduced_pressures E0 K1 [0..<1] (m_ropr K1) = Inr pr \<and> pr ! 0 = P1 \<and>
         B1 * Fin 1200 = FalloffMgr_pr_to_falloff E0 (m_falloffn K1) pr (falloff_work K1) ! 0
                           * Fin 1200)"
proof -
  have n: "1 = Rate1_nReactions E0 (m_falloff_low_rates K1)" by simp
  have fit: "1 \<le> length (m_ropr K1)" "1 \<le> length (m_fallindx K1)"
    "m_fallindx K1 ! 0 < length [Fin 600, Fin 0 :: num]"
    by simp_all
  have dist: "distinct (take 1 (m_fallindx K1))" by simp
  have inplace:
    "\<forall>pr. length (FalloffMgr_pr_to_falloff E0 (m_falloffn K1) pr (falloff_work K1)) = length pr"
    by simp
  from processFalloffReactions_effective
    [OF processFalloffReactions_K1 n zero_less_one fit dist inplace]
  obtain pr where "reduced_pressures E0 K1 [0..<1] (m_ropr K1) = Inr pr"
    and "pr ! 0 = concm_falloff_values K1 ! 0 * m_rfn_low K1 ! 0
                    / (m_rfn_high K1 ! 0 + SmallNumber E0)"
    and "[Fin 600, B1 * Fin 1200] ! (m_fallindx K1 ! 0) =
           FalloffMgr_pr_to_falloff E0 (m_falloffn K1) pr (falloff_work K1) ! 0
             * (if reactionTypeStr K1 (m_fallindx K1 ! 0) = ''falloff-legacy''
                then m_rfn_high K1 ! 0 else m_rfn_low K1 ! 0)"
    by blast
  then have "reduced_pressures E0 K1 [0..<1] (m_ropr K1) = Inr pr \<and> pr ! 0 = P1 \<and>
         B1 * Fin 1200 = FalloffMgr_pr_to_falloff E0 (m_falloffn K1) pr (falloff_work K1) ! 0
                           * Fin 1200"
    by (simp add: P1_def reactionTypeStr_def)
  then have "\<exists>pr. reduced_pressures E0 K1 [0..<1] (m_ropr K1) = Inr pr \<and> pr ! 0 = P1 \<and>
         B1 * Fin 1200 = FalloffMgr_pr_to_falloff E0 (m_falloffn K1) pr (falloff_work K1) ! 0
                           * Fin 1200" ..
  moreover have "reactionTypeStr K1 1 = ''falloff-legacy''"
    by (simp add: reactionTypeStr_def)
  ultimately show ?thesis
    using processFalloffReactions_K1 by simp
qed

subsection \<open>Fatal numeric errors\<close>

lemma reduced_pressures_Inl:
  "reduced_pressures E s ks pr = Inl e \<Longrightarrow> \<forall>k \<in> set ks. k < length pr \<Longrightarrow>
   \<exists>i \<in> set ks.
     \<not> c_isfinite E (reduced_pressure E s i) \<and>
     e = CanteraError ''GasKinetics::processFalloffReactions'' ''pr[{}] is not finite.''
           [ArgNat i]"
proof (induction ks arbitrary: pr)
  case Nil
  then show ?case by simp
next
  case (Cons k ks)
  let ?v = "reduced_pressure E s k"
  from Cons.prems have k: "k < length pr" by simp
  show ?case
  proof (cases "c_isfinite E ?v")
    case True
    with Cons.prems(1) k have "reduced_pressures E s ks (pr[k := ?v]) = Inl e"
      by (simp add: Let_def AssertFinite_def)
    moreover from Cons.prems(2) have "\<forall>j \<in> set ks. j < length (pr[k := ?v])" by simp
    ultimately show ?thesis using Cons.IH by fastforce
  next
    case False
    with Cons.prems(1) k show ?thesis by (simp add: Let_def AssertFinite_def)
  qed
qed

lemma reduced_pressures_Inr:
  "reduced_pressures E s ks pr = Inr pr' \<Longrightarrow> \<forall>k \<in> set ks. k < length pr \<Longrightarrow>
   \<forall>i \<in> set ks. c_isfinite E (reduced_pressure E s i)"
proof (induction ks arbitrary: pr)
  case Nil
  then show ?case by simp
next
  case (Cons k ks)
  let ?v = "reduced_pressure E s k"
  from Cons.prems have k: "k < length pr" by simp
  from Cons.prems(1) k have fin: "c_isfinite E ?v"
    by (simp add: Let_def AssertFinite_def split: if_splits)
  with Cons.prems(1) k have "reduced_pressures E s ks (pr[k := ?v]) = Inr pr'"
    by (simp add: Let_def AssertFinite_def)
  moreover from Cons.prems(2) have "\<forall>j \<in> set ks. j < length (pr[k := ?v])" by simp
  ultimately have "\<forall>i \<in> set ks. c_isfinite E (reduced_pressure E s i)"
    by (rule Cons.IH)
  with fin show ?case by simp
qed


lemma updateROP_checks_Some:
  "updateROP_checks E s ks = Some e \<Longrightarrow>
   \<exists>i \<in> set ks.
     (\<not> c_isfinite E (m_rfn s ! i) \<and>
        e = CanteraError ''GasKinetics::updateROP'' ''m_rfn[{}] is not finite.'' [ArgNat i]) \<or>
     (\<not> c_isfinite E (m_ropf s ! i) \<and>
        e = CanteraError ''GasKinetics::updateROP'' ''m_ropf[{}] is not finite.'' [ArgNat i]) \<or>
     (\<not> c_isfinite E (m_ropr s ! i) \<and>
        e = CanteraError ''GasKinetics::updateROP'' ''m_ropr[{}] is not finite.'' [ArgNat i])"
  by (induction ks) (auto simp: AssertFinite_def split: if_splits)

lemma updateROP_checks_None:
  "updateROP_checks E s ks = None \<Longrightarrow>
   \<forall>i \<in> set ks. c_isfinite E (m_rfn s ! i) \<and> c_isfinite E (m_ropf s ! i) \<and>
                  c_isfinite E (m_ropr s ! i)"
  by (induction ks) (auto simp: AssertFinite_def split: if_splits)

lemma processFalloffReactions_Inl:
  "processFalloffReactions E ropf s = Inl e \<Longrightarrow>
   reduced_pressures E s [0..<Rate1_nReactions E (m_falloff_low_rates s)] (m_ropr s) = Inl e"
  by (auto simp: processFalloffReactions_def Let_def split: sum.splits prod.splits)

lemma processFalloffReactions_Inr:
  "processFalloffReactions E ropf s = Inr r \<Longrightarrow>
   \<exists>pr. reduced_pressures E s [0..<Rate1_nReactions E (m_falloff_low_rates s)] (m_ropr s) = Inr pr"
  by (auto simp: processFalloffReactions_def Let_def split: sum.splits prod.splits)

lemma processFwd_Inl:
  assumes "processFwdRateCoefficients E buf s = Inl e"
  shows "Rate1_nReactions E (m_falloff_high_rates (update_rates_T E (update_rates_C E s))) \<noteq> 0 \<and>
         reduced_pressures E (update_rates_T E (update_rates_C E s))
           [0..<Rate1_nReactions E (m_falloff_low_rates (update_rates_T E (update_rates_C E s)))]
           (m_ropr (update_rates_T E (update_rates_C E s))) = Inl e"
  using assms
  by (auto simp: processFwdRateCoefficients_def Let_def
      split: sum.splits prod.splits if_splits dest: processFalloffReactions_Inl)

lemma processFwd_Inr:
  assumes "processFwdRateCoefficients E buf s = Inr r"
    and "Rate1_nReactions E (m_falloff_high_rates (update_rates_T E (update_rates_C E s))) \<noteq> 0"
  shows "\<exists>pr. reduced_pressures E (update_rates_T E (update_rates_C E s))
           [0..<Rate1_nReactions E (m_falloff_low_rates (update_rates_T E (update_rates_C E s)))]
           (m_ropr (update_rates_T E (update_rates_C E s))) = Inr pr"
  using assms
  by (auto simp: processFwdRateCoefficients_def Let_def
      split: sum.splits prod.splits if_splits dest: processFalloffReactions_Inr)

lemma assemble_ROP_m_rfn [simp]: "m_rfn (assemble_ROP E s) = m_rfn s"
  by (simp add: assemble_ROP_def Let_def)


text \<open>
  C6, as the code has it. \<^verbatim>\<open>updateROP\<close> throws exactly when a checked value is not
  finite, and the error names the vector and the index of the entry in that vector: for
  \<^verbatim>\<open>m_rfn\<close>, \<^verbatim>\<open>m_ropf\<close> and \<^verbatim>\<open>m_ropr\<close> that is the reaction index; for the reduced
  pressure \<^verbatim>\<open>pr\<close>, which is checked when there are falloff reactions, it is the position
  of the reaction among the falloff reactions. When \<^verbatim>\<open>updateROP\<close> returns, every
  reduced pressure, every entry of \<^verbatim>\<open>m_rfn\<close> and every forward and reverse rate of
  progress is finite.
\<close>

theorem updateROP_finiteness:
  assumes fit: "Rate1_nReactions E (m_falloff_low_rates (update_rates_T E (update_rates_C E s)))
                  \<le> length (m_ropr (update_rates_T E (update_rates_C E s)))"
  shows "case updateROP E s of
      Inl e \<Rightarrow>
        (let m = update_rates_T E (update_rates_C E s)
         in Rate1_nReactions E (m_falloff_high_rates m) \<noteq> 0 \<and>
            (\<exists>i < Rate1_nReactions E (m_falloff_low_rates m).
               \<not> c_isfinite E (reduced_pressure E m i) \<and>
               e = CanteraError ''GasKinetics::processFalloffReactions''
                     ''pr[{}] is not finite.'' [ArgNat i])) \<or>
        (\<exists>ropf s1. processFwdRateCoefficients E (m_ropf s) s = Inr (ropf, s1) \<and>
           (let a = assemble_ROP E (s1\<lparr>m_ropf := ropf\<rparr>)
            in \<exists>i < length (m_rfn a).
                 (\<not> c_isfinite E (m_rfn a ! i) \<and>
                    e = CanteraError ''GasKinetics::updateROP''
                          ''m_rfn[{}] is not finite.'' [ArgNat i]) \<or>
                 (\<not> c_isfinite E (m_ropf a ! i) \<and>
                    e = CanteraError ''GasKinetics::updateROP''
                          ''m_ropf[{}] is not finite.'' [ArgNat i]) \<or>
                 (\<not> c_isfinite E (m_ropr a ! i) \<and>
                    e = CanteraError ''GasKinetics::updateROP''
                          ''m_ropr[{}] is not finite.'' [ArgNat i])))
    | Inr s' \<Rightarrow>
        (let m = update_rates_T E (update_rates_C E s)
         in Rate1_nReactions E (m_falloff_high_rates m) \<noteq> 0 \<longrightarrow>
            (\<forall>i < Rate1_nReactions E (m_falloff_low_rates m).
               c_isfinite E (reduced_pressure E m i))) \<and>
        (\<forall>i < length (m_rfn s').
           c_isfinite E (m_rfn s' ! i) \<and> c_isfinite E (m_ropf s' ! i) \<and>
           c_isfinite E (m_ropr s' ! i))"
proof (cases "updateROP E s")
  case (Inl e)
  let ?m = "update_rates_T E (update_rates_C E s)"
  show ?thesis
  proof (cases "processFwdRateCoefficients E (m_ropf s) s")
    case fwd: (Inl e')
    with Inl have "e' = e" by (simp add: updateROP_def)
    with fwd have act: "Rate1_nReactions E (m_falloff_high_rates ?m) \<noteq> 0"
      and rp: "reduced_pressures E ?m [0..<Rate1_nReactions E (m_falloff_low_rates ?m)]
                 (m_ropr ?m) = Inl e"
      using processFwd_Inl [of E "m_ropf s" s e] by simp_all
    from fit have "\<forall>k \<in> set [0..<Rate1_nReactions E (m_falloff_low_rates ?m)].
                     k < length (m_ropr ?m)" by simp
    with rp have "\<exists>i \<in> set [0..<Rate1_nReactions E (m_falloff_low_rates ?m)].
        \<not> c_isfinite E (reduced_pressure E ?m i) \<and>
        e = CanteraError ''GasKinetics::processFalloffReactions'' ''pr[{}] is not finite.''
              [ArgNat i]"
      by (rule reduced_pressures_Inl)
    with act Inl show ?thesis by (auto simp: Let_def)
  next
    case fwd: (Inr r)
    obtain ropf s1 where r: "r = (ropf, s1)" by (cases r)
    let ?a = "assemble_ROP E (s1\<lparr>m_ropf := ropf\<rparr>)"
    from Inl fwd r have "updateROP_checks E ?a [0..<length (m_rfn ?a)] = Some e"
      by (simp add: updateROP_def Let_def split: option.splits)
    from updateROP_checks_Some [OF this] fwd r Inl show ?thesis
      by (auto simp: Let_def)
  qed
next
  case (Inr s')
  let ?m = "update_rates_T E (update_rates_C E s)"
  from Inr obtain ropf s1 where
    fwd: "processFwdRateCoefficients E (m_ropf s) s = Inr (ropf, s1)"
    and chk: "updateROP_checks E (assemble_ROP E (s1\<lparr>m_ropf := ropf\<rparr>))
                [0..<length (m_rfn s1)] = None"
    and s': "s' = (assemble_ROP E (s1\<lparr>m_ropf := ropf\<rparr>))\<lparr>m_ROP_ok := True\<rparr>"
    by (auto simp: updateROP_def Let_def split: sum.splits option.splits prod.splits)
  have pr: "\<forall>i < Rate1_nReactions E (m_falloff_low_rates ?m).
              c_isfinite E (reduced_pressure E ?m i)"
    if act: "Rate1_nReactions E (m_falloff_high_rates ?m) \<noteq> 0"
  proof -
    from processFwd_Inr [OF fwd act] obtain pr where
      "reduced_pressures E ?m [0..<Rate1_nReactions E (m_falloff_low_rates ?m)] (m_ropr ?m)
         = Inr pr" ..
    moreover from fit have "\<forall>k \<in> set [0..<Rate1_nReactions E (m_falloff_low_rates ?m)].
                     k < length (m_ropr ?m)" by simp
    ultimately have "\<forall>i \<in> set [0..<Rate1_nReactions E (m_falloff_low_rates ?m)].
                       c_isfinite E (reduced_pressure E ?m i)"
      by (rule reduced_pressures_Inr)
    then show ?thesis by simp
  qed
  from updateROP_checks_None [OF chk] s'
  have "\<forall>i < length (m_rfn s').
           c_isfinite E (m_rfn s' ! i) \<and> c_isfinite E (m_ropf s' ! i) \<and>
           c_isfinite E (m_ropr s' ! i)"
    by simp
  with pr Inr show ?thesis by (simp add: Let_def)
qed

lemma updateROP_K1: "updateROP E0 K1 = Inr K1_done"
  by (simp add: K1_done_def B1_def P1_def K1_def eval_defs Let_def cong: let_weak_cong)

lemma mid_K1:
  "update_rates_T E0 (update_rates_C E0 K1) = K1\<lparr>m_logStandConc := Fin 0\<rparr>"
  by (simp add: K1_def eval_defs Let_def cong: let_weak_cong)

theorem updateROP_finiteness_witness:
  "updateROP E0 K1 = Inr K1_done \<and>
   Rate1_nReactions E0 (m_falloff_high_rates (update_rates_T E0 (update_rates_C E0 K1))) = 1 \<and>
   Rate1_nReactions E0 (m_falloff_low_rates (update_rates_T E0 (update_rates_C E0 K1))) = 1 \<and>
   length (m_ropr (update_rates_T E0 (update_rates_C E0 K1))) = 2 \<and>
   length (m_rfn K1_done) = 2 \<and>
   c_isfinite E0 (reduced_pressure E0 (update_rates_T E0 (update_rates_C E0 K1)) 0) \<and>
   c_isfinite E0 (m_rfn K1_done ! 1) \<and> c_isfinite E0 (m_ropf K1_done ! 1) \<and>
   c_isfinite E0 (m_ropr K1_done ! 1)"
proof -
  have fit: "Rate1_nReactions E0 (m_falloff_low_rates (update_rates_T E0 (update_rates_C E0 K1)))
               \<le> length (m_ropr (update_rates_T E0 (update_rates_C E0 K1)))"
    by (simp add: mid_K1)
  have "length (m_rfn K1_done) = 2"
    by (simp add: K1_done_def)
  with updateROP_finiteness [OF fit]
  show ?thesis by (simp add: updateROP_K1 mid_K1 Let_def)
qed

text \<open>
  The claim as stated fails: the falloff reaction of \<open>K1_nan\<close> is reaction 1, its reduced
  pressure is not finite, and the error carries the index 0.
\<close>

theorem updateROP_pr_index_counterexample:
  "m_fallindx K1_nan = [1] \<and>
   updateROP E0 K1_nan =
     Inl (CanteraError ''GasKinetics::processFalloffReactions'' ''pr[{}] is not finite.''
            [ArgNat 0])"
  by (simp add: K1_nan_def K1_def eval_defs Let_def cong: let_weak_cong)

subsection \<open>The temperature-update pass\<close>

lemma update_bulk_rate_shape:
  "\<exists>b r ok. update_bulk_rate E i s = s\<lparr>m_bulk_rates := b, m_rfn := r, m_ROP_ok := ok\<rparr>"
proof (cases "MultiRate_update E (m_bulk_rates s ! i) s")
  case (Pair changed b)
  show ?thesis
  proof (cases changed)
    case True
    with Pair have "update_bulk_rate E i s =
      s\<lparr>m_bulk_rates := (m_bulk_rates s)[i := b],
        m_rfn := MultiRate_getRateConstants E b (m_rfn s), m_ROP_ok := False\<rparr>"
      by (simp add: update_bulk_rate_def Let_def)
    then show ?thesis by blast
  next
    case False
    with Pair have "update_bulk_rate E i s =
      s\<lparr>m_bulk_rates := (m_bulk_rates s)[i := b], m_rfn := m_rfn s, m_ROP_ok := m_ROP_ok s\<rparr>"
      by (simp add: update_bulk_rate_def Let_def)
    then show ?thesis by blast
  qed
qed

lemma fold_update_bulk_rate_shape:
  "\<exists>b r ok. fold (update_bulk_rate E) ks s = s\<lparr>m_bulk_rates := b, m_rfn := r, m_ROP_ok := ok\<rparr>"
proof (induction ks arbitrary: s)
  case Nil
  have "fold (update_bulk_rate E) [] s =
        s\<lparr>m_bulk_rates := m_bulk_rates s, m_rfn := m_rfn s, m_ROP_ok := m_ROP_ok s\<rparr>"
    by simp
  then show ?case by blast
next
  case (Cons k ks)
  obtain b r ok where
    1: "update_bulk_rate E k s = s\<lparr>m_bulk_rates := b, m_rfn := r, m_ROP_ok := ok\<rparr>"
    using update_bulk_rate_shape by blast
  obtain b' r' ok' where
    2: "fold (update_bulk_rate E) ks (update_bulk_rate E k s) =
          (update_bulk_rate E k s)\<lparr>m_bulk_rates := b', m_rfn := r', m_ROP_ok := ok'\<rparr>"
    using Cons.IH by blast
  have "fold (update_bulk_rate E) (k # ks) s =
        s\<lparr>m_bulk_rates := b', m_rfn := r', m_ROP_ok := ok'\<rparr>"
    using 1 2 by simp
  then show ?case by blast
qed

lemma update_bulk_rates_shape:
  "\<exists>b r ok. update_bulk_rates E s = s\<lparr>m_bulk_rates := b, m_rfn := r, m_ROP_ok := ok\<rparr>"
  unfolding update_bulk_rates_def by (rule fold_update_bulk_rate_shape)

lemma update_bulk_rates_frame [simp]:
  "thermo (update_bulk_rates E s) = thermo s"
  "m_reactions (update_bulk_rates E s) = m_reactions s"
  "m_temp (update_bulk_rates E s) = m_temp s"
  "m_pres (update_bulk_rates E s) = m_pres s"
  "m_logStandConc (update_bulk_rates E s) = m_logStandConc s"
  "m_rkcn (update_bulk_rates E s) = m_rkcn s"
  "m_dn (update_bulk_rates E s) = m_dn s"
  "m_rfn_low (update_bulk_rates E s) = m_rfn_low s"
  "m_rfn_high (update_bulk_rates E s) = m_rfn_high s"
  "falloff_work (update_bulk_rates E s) = falloff_work s"
  "m_plog_rates (update_bulk_rates E s) = m_plog_rates s"
  "m_cheb_rates (update_bulk_rates E s) = m_cheb_rates s"
proof -
  obtain b r ok where
    "update_bulk_rates E s = s\<lparr>m_bulk_rates := b, m_rfn := r, m_ROP_ok := ok\<rparr>"
    using update_bulk_rates_shape by blast
  then show
    "thermo (update_bulk_rates E s) = thermo s"
    "m_reactions (update_bulk_rates E s) = m_reactions s"
    "m_temp (update_bulk_rates E s) = m_temp s"
    "m_pres (update_bulk_rates E s) = m_pres s"
    "m_logStandConc (update_bulk_rates E s) = m_logStandConc s"
    "m_rkcn (update_bulk_rates E s) = m_rkcn s"
    "m_dn (update_bulk_rates E s) = m_dn s"
    "m_rfn_low (update_bulk_rates E s) = m_rfn_low s"
    "m_rfn_high (update_bulk_rates E s) = m_rfn_high s"
    "falloff_work (update_bulk_rates E s) = falloff_work s"
    "m_plog_rates (update_bulk_rates E s) = m_plog_rates s"
    "m_cheb_rates (update_bulk_rates E s) = m_cheb_rates s"
    by simp_all
qed

lemma update_T_block_frame [simp]:
  "thermo (update_T_block E T l s) = thermo s"
  "m_reactions (update_T_block E T l s) = m_reactions s"
  "m_temp (update_T_block E T l s) = m_temp s"
  "m_pres (update_T_block E T l s) = m_pres s"
  "m_logStandConc (update_T_block E T l s) = m_logStandConc s"
  "m_dn (update_T_block E T l s) = m_dn s"
  "m_plog_rates (update_T_block E T l s) = m_plog_rates s"
  "m_cheb_rates (update_T_block E T l s) = m_cheb_rates s"
  "m_bulk_rates (update_T_block E T l s) = m_bulk_rates s"
  "m_ROP_ok (update_T_block E T l s) = False"
  by (simp_all add: update_T_block_def updateKc_def Let_def)

lemma update_P_block_frame [simp]:
  "thermo (update_P_block E T l s) = thermo s"
  "m_reactions (update_P_block E T l s) = m_reactions s"
  "m_temp (update_P_block E T l s) = m_temp s"
  "m_pres (update_P_block E T l s) = m_pres s"
  "m_logStandConc (update_P_block E T l s) = m_logStandConc s"
  "m_rkcn (update_P_block E T l s) = m_rkcn s"
  "m_dn (update_P_block E T l s) = m_dn s"
  "m_rfn_low (update_P_block E T l s) = m_rfn_low s"
  "m_rfn_high (update_P_block E T l s) = m_rfn_high s"
  "falloff_work (update_P_block E T l s) = falloff_work s"
  by (simp_all add: update_P_block_def Let_def)

lemma update_rates_T_miss:
  assumes "c_ne E (temperature (thermo s)) (m_temp s)"
  shows "update_rates_T E s =
    (update_P_block E (temperature (thermo s)) (c_log E (temperature (thermo s)))
      (update_bulk_rates E
        (update_T_block E (temperature (thermo s)) (c_log E (temperature (thermo s)))
          (s\<lparr>m_logStandConc := c_log E (standardConcentration (thermo s))\<rparr>))))
    \<lparr>m_pres := pressure (thermo s), m_temp := temperature (thermo s)\<rparr>"
  using assms by (simp add: update_rates_T_def Let_def)

lemma update_rates_T_pressure_only:
  assumes "\<not> c_ne E (temperature (thermo s)) (m_temp s)"
    and "c_ne E (pressure (thermo s)) (m_pres s)"
  shows "update_rates_T E s =
    (update_P_block E (temperature (thermo s)) (c_log E (temperature (thermo s)))
      (update_bulk_rates E (s\<lparr>m_logStandConc := c_log E (standardConcentration (thermo s))\<rparr>)))
    \<lparr>m_pres := pressure (thermo s), m_temp := temperature (thermo s)\<rparr>"
  using assms by (simp add: update_rates_T_def Let_def)

lemma update_rates_T_hit:
  assumes "\<not> c_ne E (temperature (thermo s)) (m_temp s)"
    and "\<not> c_ne E (pressure (thermo s)) (m_pres s)"
  shows "update_rates_T E s =
    (update_bulk_rates E (s\<lparr>m_logStandConc := c_log E (standardConcentration (thermo s))\<rparr>))
    \<lparr>m_pres := pressure (thermo s), m_temp := temperature (thermo s)\<rparr>"
  using assms by (simp add: update_rates_T_def Let_def)

lemma update_rates_T_frame [simp]:
  "thermo (update_rates_T E s) = thermo s"
  "m_reactions (update_rates_T E s) = m_reactions s"
  "m_dn (update_rates_T E s) = m_dn s"
  "m_logStandConc (update_rates_T E s) = c_log E (standardConcentration (thermo s))"
  "m_temp (update_rates_T E s) = temperature (thermo s)"
  "m_pres (update_rates_T E s) = pressure (thermo s)"
  by (simp_all add: update_rates_T_def Let_def)

lemma fold_upt_Suc: "fold f [0..<Suc k] s = f k (fold f [0..<k] s)"
  by simp

lemma bulk_loop_rest:
  "k \<le> length (m_bulk_rates s) \<Longrightarrow>
   length (m_bulk_rates (fold (update_bulk_rate E) [0..<k] s)) = length (m_bulk_rates s) \<and>
   (\<forall>j \<ge> k. m_bulk_rates (fold (update_bulk_rate E) [0..<k] s) ! j = m_bulk_rates s ! j)"
proof (induction k)
  case 0
  then show ?case by simp
next
  case (Suc k)
  let ?st = "fold (update_bulk_rate E) [0..<k] s"
  from Suc have ih: "length (m_bulk_rates ?st) = length (m_bulk_rates s)"
    "\<forall>j \<ge> k. m_bulk_rates ?st ! j = m_bulk_rates s ! j" by simp_all
  have "m_bulk_rates (update_bulk_rate E k ?st) =
        (m_bulk_rates ?st)[k := snd (MultiRate_update E (m_bulk_rates ?st ! k) ?st)]"
    by (simp add: update_bulk_rate_def Let_def split: prod.splits)
  with ih show ?case by (simp del: upt_Suc add: fold_upt_Suc)
qed

lemma bulk_loop_unchanged:
  assumes "k \<le> length (m_bulk_rates s)"
    and "\<forall>j < k. \<forall>st. thermo st = thermo s \<and> m_concm st = m_concm s \<longrightarrow>
           \<not> fst (MultiRate_update E (m_bulk_rates s ! j) st)"
  shows "m_rfn (fold (update_bulk_rate E) [0..<k] s) = m_rfn s \<and>
         m_ROP_ok (fold (update_bulk_rate E) [0..<k] s) = m_ROP_ok s"
  using assms
proof (induction k)
  case 0
  then show ?case by simp
next
  case (Suc k)
  let ?st = "fold (update_bulk_rate E) [0..<k] s"
  from Suc have ih: "m_rfn ?st = m_rfn s" "m_ROP_ok ?st = m_ROP_ok s" by simp_all
  from Suc.prems(1) have "m_bulk_rates ?st ! k = m_bulk_rates s ! k"
    using bulk_loop_rest [of k s E] by simp
  moreover obtain b r ok where
    "fold (update_bulk_rate E) [0..<k] s = s\<lparr>m_bulk_rates := b, m_rfn := r, m_ROP_ok := ok\<rparr>"
    using fold_update_bulk_rate_shape by blast
  then have "thermo ?st = thermo s" "m_concm ?st = m_concm s"
    by simp_all
  ultimately have "\<not> fst (MultiRate_update E (m_bulk_rates ?st ! k) ?st)"
    using Suc.prems(2) by simp
  moreover obtain c b' where
    mu: "MultiRate_update E (m_bulk_rates ?st ! k) ?st = (c, b')"
    by (cases "MultiRate_update E (m_bulk_rates ?st ! k) ?st")
  ultimately have "\<not> c" by simp
  with mu have "m_rfn (update_bulk_rate E k ?st) = m_rfn ?st"
    "m_ROP_ok (update_bulk_rate E k ?st) = m_ROP_ok ?st"
    by (simp_all add: update_bulk_rate_def Let_def)
  with ih show ?case by (simp del: upt_Suc add: fold_upt_Suc)
qed

lemma updateKc_frame [simp]:
  "thermo (updateKc E s) = thermo s"
  "m_rfn (updateKc E s) = m_rfn s"
  "m_rfn_low (updateKc E s) = m_rfn_low s"
  "m_rfn_high (updateKc E s) = m_rfn_high s"
  "falloff_work (updateKc E s) = falloff_work s"
  "m_bulk_rates (updateKc E s) = m_bulk_rates s"
  "m_concm (updateKc E s) = m_concm s"
  "m_plog_rates (updateKc E s) = m_plog_rates s"
  "m_cheb_rates (updateKc E s) = m_cheb_rates s"
  "m_temp (updateKc E s) = m_temp s"
  "m_pres (updateKc E s) = m_pres s"
  by (simp_all add: updateKc_def Let_def)

lemma upd_idem:
  "m_rfn s = v \<Longrightarrow> s\<lparr>m_rfn := v\<rparr> = s"
  "m_rfn_low s = v \<Longrightarrow> s\<lparr>m_rfn_low := v\<rparr> = s"
  "m_rfn_high s = v \<Longrightarrow> s\<lparr>m_rfn_high := v\<rparr> = s"
  "falloff_work s = v \<Longrightarrow> s\<lparr>falloff_work := v\<rparr> = s"
  by auto

lemma update_T_block_alt:
  "update_T_block E T logT s =
    (updateKc E
      (s\<lparr>m_rfn := (if m_rfn s \<noteq> [] then Rate1_update E (m_rates s) T logT (m_rfn s)
                     else m_rfn s),
         m_rfn_low := (if m_rfn_low s \<noteq> []
                       then Rate1_update E (m_falloff_low_rates s) T logT (m_rfn_low s)
                       else m_rfn_low s),
         m_rfn_high := (if m_rfn_low s \<noteq> []
                        then Rate1_update E (m_falloff_high_rates s) T logT (m_rfn_high s)
                        else m_rfn_high s),
         falloff_work := (if falloff_work s \<noteq> []
                          then FalloffMgr_updateTemp E (m_falloffn s) T (falloff_work s)
                          else falloff_work s)\<rparr>))
    \<lparr>m_ROP_ok := False\<rparr>"
  by (cases "m_rfn s \<noteq> []"; cases "m_rfn_low s \<noteq> []"; cases "falloff_work s \<noteq> []")
     (simp_all add: update_T_block_def Let_def upd_idem)

lemma update_P_block_rfn:
  "m_rfn (update_P_block E T logT s) =
    (let r1 = (if Rate1_nReactions E (m_plog_rates s) \<noteq> 0
               then Rate1_update E (m_plog_rates s) T logT (m_rfn s) else m_rfn s)
     in if Rate1_nReactions E (m_cheb_rates s) \<noteq> 0
        then Rate1_update E (m_cheb_rates s) T logT r1 else r1)"
  by (simp add: update_P_block_def Let_def)

lemma bulk_quiet:
  assumes "\<forall>b \<in> set (m_bulk_rates s). \<forall>st. thermo st = thermo s \<and> m_concm st = m_concm s \<longrightarrow>
             \<not> fst (MultiRate_update E b st)"
  shows "m_rfn (update_bulk_rates E s) = m_rfn s"
  unfolding update_bulk_rates_def
  using assms by (intro bulk_loop_unchanged [THEN conjunct1]) simp_all

lemma bulk_single:
  assumes "m_bulk_rates s = [b]"
  shows "m_rfn (update_bulk_rates E s) =
           (if fst (MultiRate_update E b s)
            then MultiRate_getRateConstants E (snd (MultiRate_update E b s)) (m_rfn s)
            else m_rfn s)"
    and "m_bulk_rates (update_bulk_rates E s) = [snd (MultiRate_update E b s)]"
  using assms
  by (simp_all add: update_bulk_rates_def update_bulk_rate_def Let_def split: prod.splits)

text \<open>
  What a pass of \<^verbatim>\<open>update_rates_T\<close> leaves in the caches of the legacy evaluators, in
  terms of the calls it makes: when the temperature compares unequal to the sentinel,
  and when it compares equal.
\<close>

lemma update_rates_T_fields:
  "(let T = temperature (thermo s); P = pressure (thermo s); logT = c_log E T;
        s0 = s\<lparr>m_logStandConc := c_log E (standardConcentration (thermo s))\<rparr>;
        s' = update_rates_T E s;
        arrh = (if m_rfn s \<noteq> [] then Rate1_update E (m_rates s) T logT (m_rfn s) else m_rfn s);
        low = (if m_rfn_low s \<noteq> []
               then Rate1_update E (m_falloff_low_rates s) T logT (m_rfn_low s) else m_rfn_low s);
        high = (if m_rfn_low s \<noteq> []
                then Rate1_update E (m_falloff_high_rates s) T logT (m_rfn_high s)
                else m_rfn_high s);
        work = (if falloff_work s \<noteq> []
                then FalloffMgr_updateTemp E (m_falloffn s) T (falloff_work s)
                else falloff_work s);
        plog = (\<lambda>r. if Rate1_nReactions E (m_plog_rates s) \<noteq> 0
                    then Rate1_update E (m_plog_rates s) T logT r else r);
        cheb = (\<lambda>r. if Rate1_nReactions E (m_cheb_rates s) \<noteq> 0
                    then Rate1_update E (m_cheb_rates s) T logT r else r);
        quiet = (\<forall>b \<in> set (m_bulk_rates s). \<forall>st.
                   thermo st = thermo s \<and> m_concm st = m_concm s \<longrightarrow>
                   \<not> fst (MultiRate_update E b st))
    in
       (c_ne E T (m_temp s) \<longrightarrow>
          m_rfn_low s' = low \<and> m_rfn_high s' = high \<and> falloff_work s' = work \<and>
          m_rkcn s' =
            m_rkcn (updateKc E (s0\<lparr>m_rfn := arrh, m_rfn_low := low, m_rfn_high := high,
                                   falloff_work := work\<rparr>)) \<and>
          (quiet \<longrightarrow> m_rfn s' = cheb (plog arrh))) \<and>
       (\<not> c_ne E T (m_temp s) \<longrightarrow>
          m_rfn_low s' = m_rfn_low s \<and> m_rfn_high s' = m_rfn_high s \<and>
          falloff_work s' = falloff_work s \<and> m_rkcn s' = m_rkcn s \<and>
          (quiet \<longrightarrow>
             m_rfn s' = (if c_ne E P (m_pres s) then cheb (plog (m_rfn s)) else m_rfn s))))"
proof -
  let ?T = "temperature (thermo s)"
  let ?P = "pressure (thermo s)"
  let ?l = "c_log E ?T"
  let ?s0 = "s\<lparr>m_logStandConc := c_log E (standardConcentration (thermo s))\<rparr>"
  let ?s' = "update_rates_T E s"
  let ?quiet = "\<forall>b \<in> set (m_bulk_rates s). \<forall>st.
                   thermo st = thermo s \<and> m_concm st = m_concm s \<longrightarrow>
                   \<not> fst (MultiRate_update E b st)"
  let ?arrh = "if m_rfn s \<noteq> [] then Rate1_update E (m_rates s) ?T ?l (m_rfn s) else m_rfn s"
  let ?low = "if m_rfn_low s \<noteq> []
               then Rate1_update E (m_falloff_low_rates s) ?T ?l (m_rfn_low s) else m_rfn_low s"
  let ?high = "if m_rfn_low s \<noteq> []
                then Rate1_update E (m_falloff_high_rates s) ?T ?l (m_rfn_high s)
                else m_rfn_high s"
  let ?work = "if falloff_work s \<noteq> []
                then FalloffMgr_updateTemp E (m_falloffn s) ?T (falloff_work s)
                else falloff_work s"
  let ?st = "?s0\<lparr>m_rfn := ?arrh, m_rfn_low := ?low, m_rfn_high := ?high, falloff_work := ?work\<rparr>"
  let ?plog = "\<lambda>r. if Rate1_nReactions E (m_plog_rates s) \<noteq> 0
                    then Rate1_update E (m_plog_rates s) ?T ?l r else r"
  let ?cheb = "\<lambda>r. if Rate1_nReactions E (m_cheb_rates s) \<noteq> 0
                    then Rate1_update E (m_cheb_rates s) ?T ?l r else r"
  have miss: "m_rfn_low ?s' = ?low \<and> m_rfn_high ?s' = ?high \<and> falloff_work ?s' = ?work \<and>
              m_rkcn ?s' = m_rkcn (updateKc E ?st) \<and>
              (?quiet \<longrightarrow> m_rfn ?s' = ?cheb (?plog ?arrh))"
    if ne: "c_ne E ?T (m_temp s)"
  proof -
    let ?s2 = "update_T_block E ?T ?l ?s0"
    have eq: "?s' = (update_P_block E ?T ?l (update_bulk_rates E ?s2))
                      \<lparr>m_pres := ?P, m_temp := ?T\<rparr>"
      using ne by (rule update_rates_T_miss)
    have s2: "?s2 = (updateKc E ?st)\<lparr>m_ROP_ok := False\<rparr>"
      by (simp add: update_T_block_alt)
    have f: "m_rfn_low ?s2 = ?low" "m_rfn_high ?s2 = ?high" "falloff_work ?s2 = ?work"
      "m_rkcn ?s2 = m_rkcn (updateKc E ?st)" "m_rfn ?s2 = ?arrh"
      "thermo ?s2 = thermo s" "m_concm ?s2 = m_concm s" "m_bulk_rates ?s2 = m_bulk_rates s"
      "m_plog_rates ?s2 = m_plog_rates s" "m_cheb_rates ?s2 = m_cheb_rates s"
      "m_temp ?s2 = m_temp s"
      unfolding s2 by simp_all
    have a: "m_rfn_low ?s' = ?low" "m_rfn_high ?s' = ?high" "falloff_work ?s' = ?work"
      "m_rkcn ?s' = m_rkcn (updateKc E ?st)"
      unfolding eq using f(1-4) by simp_all
    have b: "m_rfn ?s' = ?cheb (?plog ?arrh)" if q: ?quiet
    proof -
      have "m_rfn (update_bulk_rates E ?s2) = m_rfn ?s2"
        by (rule bulk_quiet) (use q f(6-8) in simp)
      then have "m_rfn (update_bulk_rates E ?s2) = ?arrh" using f(5) by simp
      then show ?thesis unfolding eq
        by (simp add: update_P_block_rfn Let_def f(9,10))
    qed
    from a b show ?thesis by blast
  qed
  have same: "m_rfn_low ?s' = m_rfn_low s \<and> m_rfn_high ?s' = m_rfn_high s \<and>
          falloff_work ?s' = falloff_work s \<and> m_rkcn ?s' = m_rkcn s \<and>
          (?quiet \<longrightarrow>
             m_rfn ?s' = (if c_ne E ?P (m_pres s) then ?cheb (?plog (m_rfn s)) else m_rfn s))"
    if eqT: "\<not> c_ne E ?T (m_temp s)"
  proof -
    have eq: "?s' = (if c_ne E ?P (m_pres s)
                     then update_P_block E ?T ?l (update_bulk_rates E ?s0)
                     else update_bulk_rates E ?s0)\<lparr>m_pres := ?P, m_temp := ?T\<rparr>"
      using eqT by (simp add: update_rates_T_def Let_def)
    have a: "m_rfn_low ?s' = m_rfn_low s" "m_rfn_high ?s' = m_rfn_high s"
      "falloff_work ?s' = falloff_work s" "m_rkcn ?s' = m_rkcn s"
      unfolding eq by simp_all
    have b: "m_rfn ?s' = (if c_ne E ?P (m_pres s) then ?cheb (?plog (m_rfn s)) else m_rfn s)"
      if q: ?quiet
    proof -
      have "m_rfn (update_bulk_rates E ?s0) = m_rfn ?s0"
        by (rule bulk_quiet) (use q in simp)
      then show ?thesis unfolding eq
        by (simp add: update_P_block_rfn Let_def)
    qed
    from a b show ?thesis by blast
  qed
  from miss same show ?thesis unfolding Let_def by blast
qed

text \<open>
  C4, as the code has it. With \<open>T\<close> and \<open>P\<close> the temperature and pressure of the phase:
  when \<open>T\<close> compares unequal to the sentinel \<^verbatim>\<open>m_temp\<close>, \<^verbatim>\<open>update_rates_T\<close> recomputes the
  falloff limits, the falloff work and the reverse-rate multipliers, and the rate
  constants of the Arrhenius, P-log and Chebyshev evaluators, whatever the pressure.
  When \<open>T\<close> compares equal, the falloff limits, the falloff work, the reverse-rate
  multipliers and the Arrhenius rate constants are reused, whatever the pressure; the
  P-log and Chebyshev rate constants are recomputed when \<open>P\<close> compares unequal to the
  sentinel \<^verbatim>\<open>m_pres\<close> and the rate constants are reused as they are when it compares
  equal. The rate constants are stated for \<^verbatim>\<open>MultiBulkRate\<close> evaluators that report no
  change; an evaluator is asked in every pass and writes its rate constants when it
  reports one, as the last part states for a single evaluator. The sentinels end as \<open>T\<close>
  and \<open>P\<close>.
\<close>

theorem update_rates_T_cache:
  "(let T = temperature (thermo s); P = pressure (thermo s); logT = c_log E T;
        s0 = s\<lparr>m_logStandConc := c_log E (standardConcentration (thermo s))\<rparr>;
        s' = update_rates_T E s;
        arrh = (if m_rfn s \<noteq> [] then Rate1_update E (m_rates s) T logT (m_rfn s) else m_rfn s);
        low = (if m_rfn_low s \<noteq> []
               then Rate1_update E (m_falloff_low_rates s) T logT (m_rfn_low s) else m_rfn_low s);
        high = (if m_rfn_low s \<noteq> []
                then Rate1_update E (m_falloff_high_rates s) T logT (m_rfn_high s)
                else m_rfn_high s);
        work = (if falloff_work s \<noteq> []
                then FalloffMgr_updateTemp E (m_falloffn s) T (falloff_work s)
                else falloff_work s);
        plog = (\<lambda>r. if Rate1_nReactions E (m_plog_rates s) \<noteq> 0
                    then Rate1_update E (m_plog_rates s) T logT r else r);
        cheb = (\<lambda>r. if Rate1_nReactions E (m_cheb_rates s) \<noteq> 0
                    then Rate1_update E (m_cheb_rates s) T logT r else r);
        quiet = (\<forall>b \<in> set (m_bulk_rates s). \<forall>st.
                   thermo st = thermo s \<and> m_concm st = m_concm s \<longrightarrow>
                   \<not> fst (MultiRate_update E b st))
    in m_temp s' = T \<and> m_pres s' = P \<and>
       (c_ne E T (m_temp s) \<longrightarrow>
          m_rfn_low s' = low \<and> m_rfn_high s' = high \<and> falloff_work s' = work \<and>
          m_rkcn s' =
            m_rkcn (updateKc E (s0\<lparr>m_rfn := arrh, m_rfn_low := low, m_rfn_high := high,
                                   falloff_work := work\<rparr>)) \<and>
          (quiet \<longrightarrow> m_rfn s' = cheb (plog arrh))) \<and>
       (\<not> c_ne E T (m_temp s) \<longrightarrow>
          m_rfn_low s' = m_rfn_low s \<and> m_rfn_high s' = m_rfn_high s \<and>
          falloff_work s' = falloff_work s \<and> m_rkcn s' = m_rkcn s \<and>
          (quiet \<longrightarrow>
             m_rfn s' = (if c_ne E P (m_pres s) then cheb (plog (m_rfn s)) else m_rfn s))) \<and>
       (\<forall>b. m_bulk_rates s = [b] \<and> \<not> c_ne E T (m_temp s) \<and> \<not> c_ne E P (m_pres s) \<longrightarrow>
          m_bulk_rates s' = [snd (MultiRate_update E b s0)] \<and>
          m_rfn s' =
            (if fst (MultiRate_update E b s0)
             then MultiRate_getRateConstants E (snd (MultiRate_update E b s0)) (m_rfn s)
             else m_rfn s)))"
proof -
  let ?T = "temperature (thermo s)"
  let ?P = "pressure (thermo s)"
  let ?s0 = "s\<lparr>m_logStandConc := c_log E (standardConcentration (thermo s))\<rparr>"
  let ?s' = "update_rates_T E s"
  have sent: "m_temp ?s' = ?T" "m_pres ?s' = ?P" by simp_all
  have one: "m_bulk_rates ?s' = [snd (MultiRate_update E b ?s0)] \<and>
             m_rfn ?s' =
               (if fst (MultiRate_update E b ?s0)
                then MultiRate_getRateConstants E (snd (MultiRate_update E b ?s0)) (m_rfn s)
                else m_rfn s)"
    if h: "m_bulk_rates s = [b] \<and> \<not> c_ne E ?T (m_temp s) \<and> \<not> c_ne E ?P (m_pres s)" for b
  proof -
    from h have eq: "?s' = (update_bulk_rates E ?s0)\<lparr>m_pres := ?P, m_temp := ?T\<rparr>"
      by (simp add: update_rates_T_hit)
    from h have "m_bulk_rates ?s0 = [b]" by simp
    from bulk_single [OF this, of E] show ?thesis unfolding eq by simp
  qed
  from sent one update_rates_T_fields [of s E, unfolded Let_def]
  show ?thesis unfolding Let_def by blast
qed

lemma K0_p_simps [simp]:
  "thermo K0_p = Th0" "m_temp K0_p = Fin 300" "m_pres K0_p = Fin 0"
  "m_rfn K0_p = [Fin 0, Fin 0]" "m_rkcn K0_p = [Fin 0, Fin 0]" "m_rfn_low K0_p = []"
  "m_rates K0_p = [(0, Fin 2), (1, Fin 3)]" "m_bulk_rates K0_p = []"
  by (simp_all add: K0_p_def)

lemma K0_b_simps [simp]:
  "thermo K0_b = Th0" "m_temp K0_b = Fin 300" "m_pres K0_b = Fin 101325"
  "m_rfn K0_b = [Fin 600, Fin 900]" "m_bulk_rates K0_b = [Fin 300]"
  by (simp_all add: K0_b_def K0_done_def)

lemma K0_pc_simps [simp]:
  "thermo K0_pc = Th0" "m_temp K0_pc = Fin 300" "m_pres K0_pc = Fin 0"
  "m_rfn K0_pc = [Fin 0, Fin 0]" "m_rkcn K0_pc = [Fin 0, Fin 0]"
  "m_plog_rates K0_pc = [(1, Fin 7)]" "m_cheb_rates K0_pc = [(0, Fin 11)]"
  "m_bulk_rates K0_pc = []"
  by (simp_all add: K0_pc_def)

lemma K1_cold_simps [simp]:
  "thermo K1_cold = Th0" "m_temp K1_cold = Fin 0"
  "m_rfn K1_cold = [Fin 0, Fin 0]" "m_rfn_low K1_cold = [Fin 0]" "m_rfn_high K1_cold = [Fin 0]"
  "m_rates K1_cold = [(0, Fin 2)]" "m_falloff_low_rates K1_cold = [(0, Fin 2)]"
  "m_falloff_high_rates K1_cold = [(0, Fin 4)]" "m_plog_rates K1_cold = []"
  "m_cheb_rates K1_cold = []" "m_bulk_rates K1_cold = []"
  by (simp_all add: K1_cold_def)

lemma K0_s_simps [simp]:
  "thermo K0_s = Th0" "m_temp K0_s = Fin 300" "m_pres K0_s = Fin 101325"
  "m_rfn K0_s = [Fin 600, Fin 900]" "m_bulk_rates K0_s = [Fin 0]"
  by (simp_all add: K0_s_def K0_done_def)

lemma E0_b_simps [simp]:
  "c_ne E0_b = num_ne"
  "MultiRate_update E0_b = (\<lambda>b s. (num_ne (temperature (thermo s)) b, temperature (thermo s)))"
  "MultiRate_getRateConstants E0_b = (\<lambda>b v. v[0 := b])"
  by (simp_all add: E0_b_def)

theorem update_rates_T_cache_witness:
  "c_ne E0 (temperature (thermo K1_cold)) (m_temp K1_cold) \<and>
   m_rfn (update_rates_T E0 K1_cold) = [Fin 600, Fin 0] \<and>
   m_rfn_low (update_rates_T E0 K1_cold) = [Fin 600] \<and>
   m_rfn_high (update_rates_T E0 K1_cold) = [Fin 1200] \<and>
   m_rkcn (update_rates_T E0 K1_cold) = [Fin 1, Fin 0] \<and>
   \<not> c_ne E0 (temperature (thermo K0_pc)) (m_temp K0_pc) \<and>
   c_ne E0 (pressure (thermo K0_pc)) (m_pres K0_pc) \<and>
   m_rfn (update_rates_T E0 K0_pc) = [Fin 3300, Fin 2100] \<and>
   m_rkcn (update_rates_T E0 K0_pc) = m_rkcn K0_pc \<and>
   \<not> c_ne E0 (temperature (thermo K0_b)) (m_temp K0_b) \<and>
   \<not> c_ne E0 (pressure (thermo K0_b)) (m_pres K0_b) \<and>
   m_rfn (update_rates_T E0 K0_b) = m_rfn K0_b \<and>
   \<not> c_ne E0_b (temperature (thermo K0_s)) (m_temp K0_s) \<and>
   \<not> c_ne E0_b (pressure (thermo K0_s)) (m_pres K0_s) \<and>
   m_rfn (update_rates_T E0_b K0_s) = [Fin 300, Fin 900]"
proof -
  note ev = updateKc_def std_fill_def std_min_def Let_def zero_num_def one_num_def
  have 1: "c_ne E0 (temperature (thermo K1_cold)) (m_temp K1_cold)" by simp
  have 2: "\<not> c_ne E0 (temperature (thermo K0_pc)) (m_temp K0_pc)"
    "c_ne E0 (pressure (thermo K0_pc)) (m_pres K0_pc)" by simp_all
  have 3: "\<not> c_ne E0 (temperature (thermo K0_b)) (m_temp K0_b)"
    "\<not> c_ne E0 (pressure (thermo K0_b)) (m_pres K0_b)" by simp_all
  have 4: "\<not> c_ne E0_b (temperature (thermo K0_s)) (m_temp K0_s)"
    "\<not> c_ne E0_b (pressure (thermo K0_s)) (m_pres K0_s)" by simp_all
  note a = update_rates_T_cache [where s = K1_cold and E = E0, unfolded Let_def,
    THEN conjunct2, THEN conjunct2, THEN conjunct1, rule_format, OF 1]
  from a have a1: "m_rfn_low (update_rates_T E0 K1_cold) = [Fin 600]"
    "m_rfn_high (update_rates_T E0 K1_cold) = [Fin 1200]" by simp_all
  from a have a2: "m_rfn (update_rates_T E0 K1_cold) = [Fin 600, Fin 0]" by simp
  from a have a3: "m_rkcn (update_rates_T E0 K1_cold) = [Fin 1, Fin 0]"
    by (simp add: K1_cold_def ev cong: let_weak_cong)
  note b = update_rates_T_cache [where s = K0_pc and E = E0, unfolded Let_def,
    THEN conjunct2, THEN conjunct2, THEN conjunct2, THEN conjunct1, rule_format, OF 2(1)]
  from b 2(2) have b1: "m_rfn (update_rates_T E0 K0_pc) = [Fin 3300, Fin 2100]" by simp
  from b have b2: "m_rkcn (update_rates_T E0 K0_pc) = m_rkcn K0_pc" by (elim conjE)
  note c = update_rates_T_cache [where s = K0_b and E = E0, unfolded Let_def,
    THEN conjunct2, THEN conjunct2, THEN conjunct2, THEN conjunct1, rule_format, OF 3(1)]
  from c 3(2) have c1: "m_rfn (update_rates_T E0 K0_b) = m_rfn K0_b" by simp
  note d = update_rates_T_cache [where s = K0_s and E = E0_b, unfolded Let_def,
    THEN conjunct2, THEN conjunct2, THEN conjunct2, THEN conjunct2, rule_format, of "Fin 0"]
  from d 4 have d1: "m_rfn (update_rates_T E0_b K0_s) = [Fin 300, Fin 900]" by simp
  from 1 2 3 4 a1 a2 a3 b1 b2 c1 d1 show ?thesis
    by (intro conjI) assumption+
qed

text \<open>
  The claim as stated fails: the pressure of the phase differs from the cached one, and
  neither the rate constants, which the evaluator of the elementary reactions would set
  to 600 and 900, nor the reverse-rate multipliers, which \<^verbatim>\<open>updateKc\<close> would set to 1 and
  0, are recomputed.
\<close>

theorem update_rates_T_pressure_counterexample:
  "c_ne E0 (pressure (thermo K0_p)) (m_pres K0_p) \<and>
   m_rfn (update_rates_T E0 K0_p) = [Fin 0, Fin 0] \<and>
   Rate1_update E0 (m_rates K0_p) (temperature (thermo K0_p))
     (c_log E0 (temperature (thermo K0_p))) (m_rfn K0_p) = [Fin 600, Fin 900] \<and>
   m_rkcn (update_rates_T E0 K0_p) = [Fin 0, Fin 0] \<and>
   m_rkcn (updateKc E0 K0_p) = [Fin 1, Fin 0]"
  by (simp add: K0_p_def eval_defs Let_def cong: let_weak_cong)

subsection \<open>Equilibrium constants\<close>

text \<open>
  C10. \<^verbatim>\<open>getEquilibriumConstants\<close> returns \<open>exp (- \<Delta>G\<^sub>i * (1 / RT) + \<Delta>n\<^sub>i * ln C0)\<close> for
  every reaction \<open>i\<close> and leaves the temperature sentinel at \<open>0\<close>; whatever the phase is
  set to next, if its temperature compares unequal to \<open>0\<close>, as every positive temperature
  does, the next \<^verbatim>\<open>update_rates_T\<close> runs the temperature block, and with it \<^verbatim>\<open>updateKc\<close>.
\<close>

theorem getEquilibriumConstants_post:
  assumes run: "getEquilibriumConstants E kc s = (kc', s')"
    and i: "i < nReactions s" "i < length kc"
  shows "kc' ! i = c_exp E (- (deltaG0 E s ! i) * (1 / RT (thermo s))
                          + m_dn s ! i * c_log E (standardConcentration (thermo s))) \<and>
         m_temp s' = 0 \<and>
         (\<forall>th :: 'a::{zero,one,plus,minus,uminus,times,inverse,ord} ThermoPhase. c_ne E (temperature th) 0 \<longrightarrow>
            update_rates_T E (s'\<lparr>thermo := th\<rparr>) =
              (update_P_block E (temperature th) (c_log E (temperature th))
                (update_bulk_rates E
                  (update_T_block E (temperature th) (c_log E (temperature th))
                    (s'\<lparr>thermo := th, m_logStandConc := c_log E (standardConcentration th)\<rparr>))))
              \<lparr>m_pres := pressure th, m_temp := temperature th\<rparr>)"
proof (intro conjI allI impI)
  let ?g = "\<lambda>i. c_exp E (- (deltaG0 E s ! i) * (1 / RT (thermo s))
                          + m_dn s ! i * c_log E (standardConcentration (thermo s)))"
  from run have "kc' = for_upto (nReactions s) (\<lambda>i w. ?g i) kc"
    by (simp add: getEquilibriumConstants_def deltaG0_def Let_def nReactions_def)
  with i show "kc' ! i = ?g i"
    by (simp add: for_upto_const_nth)
next
  from run show t0: "m_temp s' = 0"
    by (auto simp: getEquilibriumConstants_def Let_def)
  fix th :: "'a ThermoPhase"
  assume "c_ne E (temperature th) 0"
  with t0 have "c_ne E (temperature (thermo (s'\<lparr>thermo := th\<rparr>))) (m_temp (s'\<lparr>thermo := th\<rparr>))"
    by simp
  from update_rates_T_miss [OF this]
  show "update_rates_T E (s'\<lparr>thermo := th\<rparr>) =
              (update_P_block E (temperature th) (c_log E (temperature th))
                (update_bulk_rates E
                  (update_T_block E (temperature th) (c_log E (temperature th))
                    (s'\<lparr>thermo := th, m_logStandConc := c_log E (standardConcentration th)\<rparr>))))
              \<lparr>m_pres := pressure th, m_temp := temperature th\<rparr>"
    by simp
qed


lemma getEquilibriumConstants_K0:
  "getEquilibriumConstants E0 [Fin 0, Fin 0] K0 = ([Fin 1, Fin (exp (- 2))], K0_kc)"
  by (simp add: getEquilibriumConstants_def K0_kc_def eval_defs Let_def cong: let_weak_cong)

theorem getEquilibriumConstants_post_witness:
  "getEquilibriumConstants E0 [Fin 0, Fin 0] K0 = ([Fin 1, Fin (exp (- 2))], K0_kc) \<and>
   1 < nReactions K0 \<and> 1 < length [Fin 0, Fin 0 :: num] \<and>
   m_temp K0_kc = 0 \<and> c_ne E0 (temperature Th0) 0 \<and>
   m_rkcn K0_kc = [Fin 0, Fin 4] \<and>
   m_rkcn (update_rates_T E0 (K0_kc\<lparr>thermo := Th0\<rparr>)) = [Fin 1, Fin 0]"
proof -
  have i: "1 < nReactions K0" "1 < length [Fin 0, Fin 0 :: num]"
    by (simp_all add: nReactions_def)
  have ne: "c_ne E0 (temperature Th0) 0" by (simp add: zero_num_def)
  have v: "m_rkcn ((update_P_block E0 (temperature Th0) (c_log E0 (temperature Th0))
                (update_bulk_rates E0
                  (update_T_block E0 (temperature Th0) (c_log E0 (temperature Th0))
                    (K0_kc\<lparr>thermo := Th0, m_logStandConc := c_log E0 (standardConcentration Th0)\<rparr>))))
              \<lparr>m_pres := pressure Th0, m_temp := temperature Th0\<rparr>) = [Fin 1, Fin 0]"
    by (simp add: K0_kc_def eval_defs Let_def cong: let_weak_cong)
  from getEquilibriumConstants_post [OF getEquilibriumConstants_K0 i] ne v
  show ?thesis
    by (simp add: getEquilibriumConstants_K0 nReactions_def K0_kc_def zero_num_def)
qed

subsection \<open>Structural mutation\<close>

lemma invalidateCache_sentinels [simp]:
  "m_temp (invalidateCache E s) = m_temp s + BulkKinetics_offset E"
  "m_pres (invalidateCache E s) = m_pres s + lit_0_13579 E"
  "thermo (invalidateCache E s) = thermo s"
  by (simp_all add: invalidateCache_def BulkKinetics_invalidateCache_def Let_def)


lemma add_legacy_frames [simp]:
  "m_temp (addElementaryReaction E r s) = m_temp s"
  "m_pres (addElementaryReaction E r s) = m_pres s"
  "thermo (addElementaryReaction E r s) = thermo s"
  "m_temp (addThreeBodyReaction E r s) = m_temp s"
  "m_pres (addThreeBodyReaction E r s) = m_pres s"
  "thermo (addThreeBodyReaction E r s) = thermo s"
  "m_temp (addFalloffReaction E r s) = m_temp s"
  "m_pres (addFalloffReaction E r s) = m_pres s"
  "thermo (addFalloffReaction E r s) = thermo s"
  "m_temp (addPlogReaction E r s) = m_temp s"
  "m_pres (addPlogReaction E r s) = m_pres s"
  "thermo (addPlogReaction E r s) = thermo s"
  "m_temp (addChebyshevReaction E r s) = m_temp s"
  "m_pres (addChebyshevReaction E r s) = m_pres s"
  "thermo (addChebyshevReaction E r s) = thermo s"
  by (simp_all add: addElementaryReaction_def addThreeBodyReaction_def
        addFalloffReaction_def addPlogReaction_def addChebyshevReaction_def Let_def)




lemma K0_mod_simps [simp]:
  "m_rfn K0_mod = [Fin 600, Fin 900]" "m_rates K0_mod = [(0, Fin 5), (1, Fin 3)]"
  "m_plog_rates K0_mod = []" "m_cheb_rates K0_mod = []" "m_bulk_rates K0_mod = []"
  by (simp_all add: K0_mod_def K0_done_def)

lemma K0_done_simps [simp]:
  "thermo K0_done = Th0" "m_temp K0_done = Fin 300" "m_pres K0_done = Fin 101325"
  by (simp_all add: K0_done_def)







end
